theory Spec2Isabelle
  imports Complex_Main
begin

section \<open>The R13 solver class over the finite-element toolkit\<close>

text \<open>
  The repository holds two revisions of the module \<^verbatim>\<open>solver.py\<close>:
  \<^verbatim>\<open>fenicsR13/src/solver.py\<close> (tensor helpers are closures of \<^verbatim>\<open>assemble\<close>, modes
  heat and stress) and \<^verbatim>\<open>src/src/solver.py\<close> (tensor helpers come from the module
  \<^verbatim>\<open>tensoroperations\<close>, modes heat, stress and coupled). A definition named as in the
  source embeds \<^verbatim>\<open>fenicsR13/src/solver.py\<close>; the suffix \<open>_src\<close> marks the embedding of
  \<^verbatim>\<open>src/src/solver.py\<close> where the two differ.

  Conventions of the embedding.
  \<^item> Python floats are the reals: arithmetic is exact, a division by a zero float
    is the branch \<open>ZeroDivisionError\<close>.
  \<^item> A symbolic scalar expression of the form language is taken at one point of the
    domain, as its value together with its two partial derivatives (a first-order jet);
    a tensor is the nested list of its components, as \<^verbatim>\<open>as_tensor\<close> receives it.
  \<^item> The parameter dict has the layout the input file gives it: every key the
    module reads is present, so a subscript is a field selection.
\<close>

subsection \<open>Scalar expressions at a point\<close>

datatype jet = Jet (jval: real) (jd0: real) (jd1: real)

instantiation jet :: ab_group_add
begin

definition zero_jet :: jet where
  "zero_jet = Jet 0 0 0"

definition plus_jet :: "jet \<Rightarrow> jet \<Rightarrow> jet" where
  "plus_jet a b = Jet (jval a + jval b) (jd0 a + jd0 b) (jd1 a + jd1 b)"

definition uminus_jet :: "jet \<Rightarrow> jet" where
  "uminus_jet a = Jet (- jval a) (- jd0 a) (- jd1 a)"

definition minus_jet :: "jet \<Rightarrow> jet \<Rightarrow> jet" where
  "minus_jet a b = Jet (jval a - jval b) (jd0 a - jd0 b) (jd1 a - jd1 b)"

instance
  by standard (simp_all add: zero_jet_def plus_jet_def uminus_jet_def minus_jet_def jet.expand)

end

text \<open>\<^verbatim>\<open>c * e\<close> for a float \<open>c\<close> and a scalar expression \<open>e\<close>.\<close>

definition jscale :: "real \<Rightarrow> jet \<Rightarrow> jet" where
  "jscale c a = Jet (c * jval a) (c * jd0 a) (c * jd1 a)"

text \<open>\<^verbatim>\<open>df.grad\<close> of a scalar on the two-dimensional mesh, and \<^verbatim>\<open>e.dx(k)\<close>.\<close>

definition grad_scalar :: "jet \<Rightarrow> real list" where
  "grad_scalar a = [jd0 a, jd1 a]"

definition dx :: "jet \<Rightarrow> nat \<Rightarrow> real" where
  "dx a k = grad_scalar a ! k"

subsection \<open>Tensor algebra of the form language\<close>

text \<open>
  \<^verbatim>\<open>df.inner\<close> contracts all indices; the toolkit refuses operands of different shape,
  which the callers below never pass.
\<close>

definition inner1 :: "real list \<Rightarrow> real list \<Rightarrow> real" where
  "inner1 a b = sum_list (map2 (*) a b)"

definition inner2 :: "real list list \<Rightarrow> real list list \<Rightarrow> real" where
  "inner2 a b = sum_list (map2 inner1 a b)"

definition inner3 :: "real list list list \<Rightarrow> real list list list \<Rightarrow> real" where
  "inner3 a b = sum_list (map2 inner2 a b)"

definition Identity :: "nat \<Rightarrow> real list list" where
  "Identity n = map (\<lambda>i. map (\<lambda>j. if i = j then 1 else 0) [0..<n]) [0..<n]"

subsection \<open>Tensor helpers of \<^verbatim>\<open>assemble\<close>: three-dimensional tensors on a two-dimensional domain\<close>

text \<open>
  \<^verbatim>\<open>sym3\<close>: one sixth of the sum over all permutations of the three free indices,
  collected by \<^verbatim>\<open>as_tensor(symm_ijk, (i, j, k))\<close>; each index of the rank-3 tensor
  ranges over three values.
\<close>

definition sym3 :: "real list list list \<Rightarrow> real list list list" where
  "sym3 rank3 = map (\<lambda>i. map (\<lambda>j. map (\<lambda>k.
     1/6 * (
         rank3 ! i ! j ! k
       + rank3 ! i ! k ! j
       + rank3 ! j ! i ! k
       + rank3 ! j ! k ! i
       + rank3 ! k ! i ! j
       + rank3 ! k ! j ! i))
     [0..<3]) [0..<3]) [0..<3]"

text \<open>
  \<^verbatim>\<open>dev3\<close>: the repeated index \<open>l\<close> of \<^verbatim>\<open>sym3(rank3)[i, l, l]\<close> is summed over.
\<close>

definition dev3 :: "real list list list \<Rightarrow> real list list list" where
  "dev3 rank3 = (let delta = Identity 3 in
     map (\<lambda>i. map (\<lambda>j. map (\<lambda>k.
       let sym_ijk = sym3 rank3 ! i ! j ! k;
           trace_ijk = 1/5 * (
               (\<Sum>l\<leftarrow>[0..<3]. sym3 rank3 ! i ! l ! l) * delta ! j ! k
             + (\<Sum>l\<leftarrow>[0..<3]. sym3 rank3 ! j ! l ! l) * delta ! i ! k
             + (\<Sum>l\<leftarrow>[0..<3]. sym3 rank3 ! k ! l ! l) * delta ! i ! j);
           tracefree_ijk = sym_ijk - trace_ijk
       in tracefree_ijk)
     [0..<3]) [0..<3]) [0..<3])"

definition gen3dTracefreeTensor :: "'a::ab_group_add list list \<Rightarrow> 'a list list" where
  "gen3dTracefreeTensor rank2 =
     [[rank2 ! 0 ! 0, rank2 ! 0 ! 1, 0],
      [rank2 ! 1 ! 0, rank2 ! 1 ! 1, 0],
      [0, 0, - rank2 ! 0 ! 0 - rank2 ! 1 ! 1]]"

text \<open>
  \<^verbatim>\<open>grad3dOf2\<close>: \<^verbatim>\<open>grad2d = df.grad(rank2)\<close> carries the derivative index last;
  the result stacks the slices \<^verbatim>\<open>grad2d[:, :, 0]\<close>, \<^verbatim>\<open>grad2d[:, :, 1]\<close> and a zero block.
\<close>

definition grad3dOf2 :: "jet list list \<Rightarrow> real list list list" where
  "grad3dOf2 rank2 = (let
      grad2d = map (map grad_scalar) rank2;
      dim3 = [[0, 0, 0], [0, 0, 0], [0, 0, 0]];
      grad3d = [map (map (\<lambda>g. g ! 0)) grad2d, map (map (\<lambda>g. g ! 1)) grad2d, dim3]
    in grad3d)"

text \<open>The two branches of \<^verbatim>\<open>innerOfDevOfGrad2AndGrad2\<close>, and the function with its flag.\<close>

definition innerOfDevOfGrad2AndGrad2_hardcoded :: "jet list list \<Rightarrow> jet list list \<Rightarrow> real" where
  "innerOfDevOfGrad2AndGrad2_hardcoded sigma psi =
     dx (psi!1!1) 1 * ((3 * dx (sigma!1!1) 1)/5 - dx (sigma!0!1) 0 / 5 - dx (sigma!1!0) 0 / 5)
   + (- dx (psi!0!0) 1 - dx (psi!1!1) 1) * (- dx (sigma!0!0) 1 / 3 - (7 * dx (sigma!1!1) 1)/15 - dx (sigma!0!1) 0 / 15 - dx (sigma!1!0) 0 / 15)
   + dx (psi!0!0) 1 * (dx (sigma!0!0) 1 / 3 - (2 * dx (sigma!1!1) 1)/15 + (4 * dx (sigma!0!1) 0)/15 + (4 * dx (sigma!1!0) 0)/15)
   + dx (psi!0!1) 1 * ((4 * dx (sigma!0!1) 1)/15 + (4 * dx (sigma!1!0) 1)/15 - (2 * dx (sigma!0!0) 0)/15 + dx (sigma!1!1) 0 / 3)
   + dx (psi!1!0) 1 * ((4 * dx (sigma!0!1) 1)/15 + (4 * dx (sigma!1!0) 1)/15 - (2 * dx (sigma!0!0) 0)/15 + dx (sigma!1!1) 0 / 3)
   + (- dx (sigma!0!1) 1 / 5 - dx (sigma!1!0) 1 / 5 + (3 * dx (sigma!0!0) 0)/5) * dx (psi!0!0) 0
   + (dx (sigma!0!0) 1 / 3 - (2 * dx (sigma!1!1) 1)/15 + (4 * dx (sigma!0!1) 0)/15 + (4 * dx (sigma!1!0) 0)/15) * dx (psi!0!1) 0
   + (dx (sigma!0!0) 1 / 3 - (2 * dx (sigma!1!1) 1)/15 + (4 * dx (sigma!0!1) 0)/15 + (4 * dx (sigma!1!0) 0)/15) * dx (psi!1!0) 0
   + (- dx (sigma!0!1) 1 / 15 - dx (sigma!1!0) 1 / 15 - (7 * dx (sigma!0!0) 0)/15 - dx (sigma!1!1) 0 / 3) * (- dx (psi!0!0) 0 - dx (psi!1!1) 0)
   + ((4 * dx (sigma!0!1) 1)/15 + (4 * dx (sigma!1!0) 1)/15 - (2 * dx (sigma!0!0) 0)/15 + dx (sigma!1!1) 0 / 3) * dx (psi!1!1) 0"

definition innerOfDevOfGrad2AndGrad2_compositional :: "jet list list \<Rightarrow> jet list list \<Rightarrow> real" where
  "innerOfDevOfGrad2AndGrad2_compositional sigma psi =
     inner3
       (dev3 (grad3dOf2 (gen3dTracefreeTensor sigma)))
       (grad3dOf2 (gen3dTracefreeTensor psi))"

definition hardcoded :: bool where
  "hardcoded = False"

definition innerOfDevOfGrad2AndGrad2 :: "jet list list \<Rightarrow> jet list list \<Rightarrow> real" where
  "innerOfDevOfGrad2AndGrad2 sigma psi =
     (if hardcoded then innerOfDevOfGrad2AndGrad2_hardcoded sigma psi
      else innerOfDevOfGrad2AndGrad2_compositional sigma psi)"

subsection \<open>Matrix and vector operations of the form language\<close>

definition dot :: "real list \<Rightarrow> real list \<Rightarrow> real" where
  "dot a b = sum_list (map2 (*) a b)"

text \<open>\<^verbatim>\<open>A * n\<close> for a rank-2 \<open>A\<close> and a vector \<open>n\<close>, and \<^verbatim>\<open>df.dot(A, n)\<close>: the
  last index of \<open>A\<close> is contracted with \<open>n\<close>.\<close>

definition matvec :: "real list list \<Rightarrow> real list \<Rightarrow> real list" where
  "matvec A x = map (\<lambda>row. dot row x) A"

text \<open>\<^verbatim>\<open>ufl.transpose\<close> and \<^verbatim>\<open>ufl.tr\<close>, of a square matrix.\<close>

definition transpose2 :: "'a list list \<Rightarrow> 'a list list" where
  "transpose2 A = map (\<lambda>j. map (\<lambda>row. row ! j) A) [0..<length A]"

definition tr :: "real list list \<Rightarrow> real" where
  "tr A = (\<Sum>i\<leftarrow>[0..<length A]. A ! i ! i)"

definition mat_add :: "real list list \<Rightarrow> real list list \<Rightarrow> real list list" where
  "mat_add A B = map2 (map2 (+)) A B"

definition mat_sub :: "real list list \<Rightarrow> real list list \<Rightarrow> real list list" where
  "mat_sub A B = map2 (map2 (-)) A B"

definition mat_scale :: "real \<Rightarrow> real list list \<Rightarrow> real list list" where
  "mat_scale c A = map (map (\<lambda>x. c * x)) A"

text \<open>\<^verbatim>\<open>ufl.perp\<close>: the tangent \<open>(-n_y, n_x)\<close> of a two-dimensional normal.\<close>

definition perp :: "real list \<Rightarrow> real list" where
  "perp n = [- n ! 1, n ! 0]"

text \<open>Values of vector and tensor expressions, \<^verbatim>\<open>df.grad\<close>, \<^verbatim>\<open>df.div\<close> and \<^verbatim>\<open>df.sym\<close>.\<close>

definition vals1 :: "jet list \<Rightarrow> real list" where
  "vals1 v = map jval v"

definition vals2 :: "jet list list \<Rightarrow> real list list" where
  "vals2 A = map (map jval) A"

definition grad_vector :: "jet list \<Rightarrow> real list list" where
  "grad_vector v = map grad_scalar v"

definition div_vector :: "jet list \<Rightarrow> real" where
  "div_vector v = (\<Sum>j\<leftarrow>[0..<length v]. dx (v ! j) j)"

definition div_tensor :: "jet list list \<Rightarrow> real list" where
  "div_tensor A = map div_vector A"

definition sym :: "jet list list \<Rightarrow> jet list list" where
  "sym A = map2 (map2 (\<lambda>a b. jscale (1/2) (a + b))) A (transpose2 A)"

subsection \<open>Tensor helpers of \<^verbatim>\<open>assemble\<close>: two-dimensional parts\<close>

definition dev3d :: "real list list \<Rightarrow> real list list" where
  "dev3d mat =
     mat_sub (mat_scale 0.5 (mat_add mat (transpose2 mat)))
             (mat_scale ((1/3) * tr mat) (Identity 2))"

definition innerOfTracefree2 :: "real list list \<Rightarrow> real list list \<Rightarrow> real" where
  "innerOfTracefree2 rank2_1 rank2_2 =
       inner2 rank2_1 rank2_2
     + rank2_1 ! 0 ! 0 * rank2_2 ! 0 ! 0
     + rank2_1 ! 0 ! 0 * rank2_2 ! 1 ! 1
     + rank2_1 ! 1 ! 1 * rank2_2 ! 0 ! 0
     + rank2_1 ! 1 ! 1 * rank2_2 ! 1 ! 1"

text \<open>
  The module \<^verbatim>\<open>tensoroperations\<close>, imported as \<^verbatim>\<open>to\<close> by \<^verbatim>\<open>src/src/solver.py\<close>, is
  not among the sources: the three functions read from it are parameters.
\<close>

record tensoroperations =
  to_dev3d :: "real list list \<Rightarrow> real list list"
  to_innerOfDevOfGrad2AndGrad2 :: "jet list list \<Rightarrow> jet list list \<Rightarrow> real"
  to_innerOfTracefree2 :: "real list list \<Rightarrow> real list list \<Rightarrow> real"

text \<open>The module in which the three functions are the closures of the other revision.\<close>

definition to_closures :: tensoroperations where
  "to_closures = \<lparr> to_dev3d = dev3d,
     to_innerOfDevOfGrad2AndGrad2 = innerOfDevOfGrad2AndGrad2,
     to_innerOfTracefree2 = innerOfTracefree2 \<rparr>"

subsection \<open>Objects of the finite-element toolkit\<close>

datatype cell = interval | triangle | quadrilateral | tetrahedron | hexahedron

text \<open>Family, cell, degree; a tensor element also has its symmetry flag. Family names
  are in the toolkit's canonical spelling.\<close>

datatype element =
    FiniteElement string cell nat
  | VectorElement string cell nat
  | TensorElement string cell nat bool
  | MixedElement "element list"

text \<open>
  The constructor call \<^verbatim>\<open>MixedElement(*elements)\<close>: one argument that is a list is
  un-nested; otherwise an argument that is a list becomes a mixed sub-element.
\<close>

datatype element_arg = An_element element | A_list "element list"

fun mixed_element :: "element_arg list \<Rightarrow> element" where
  "mixed_element [A_list es] = MixedElement es"
| "mixed_element args =
     MixedElement (map (\<lambda>a. case a of An_element e \<Rightarrow> e | A_list es \<Rightarrow> MixedElement es) args)"


text \<open>A mesh is known by its cell type and the file it was read from.\<close>

datatype mesh = Mesh (ufl_cell: cell) (mesh_file: string)

datatype fspace =
    FunctionSpace mesh element
  | TensorFunctionSpace mesh string nat

fun ufl_element_of :: "fspace \<Rightarrow> element" where
  "ufl_element_of (FunctionSpace m e) = e"
| "ufl_element_of (TensorFunctionSpace m family deg) = TensorElement family (ufl_cell m) deg False"

subsection \<open>Forms\<close>

text \<open>
  The terminals of the form language at a point: the trial functions \<open>theta, s, p, u,
  sigma\<close>, the test functions \<open>kappa, r, q, v, psi\<close>, the facet normal, the cell
  diameter and the two source expressions.
\<close>

record local =
  l_theta :: jet
  l_s :: "jet list"
  l_p :: jet
  l_u :: "jet list"
  l_sigma :: "jet list list"
  l_kappa :: jet
  l_r :: "jet list"
  l_q :: jet
  l_v :: "jet list"
  l_psi :: "jet list list"
  l_n :: "real list"
  l_h :: real
  l_heat_source :: real
  l_mass_source :: real

text \<open>On a cell or a boundary facet the terminals are unrestricted (\<open>here\<close>); on an
  interior facet they are restricted to its two sides, \<^verbatim>\<open>e("+")\<close> and \<^verbatim>\<open>e("-")\<close>.\<close>

record point =
  here :: local
  plus :: local
  minus :: local

datatype measure = df_dx | df_ds | df_ds_sub int | df_dS

text \<open>An integral: its measure, the function space of its arguments, its integrand.
  A form is the list of its integrals; adding forms appends, and adding the number 0
  (also the start value of \<^verbatim>\<open>sum\<close>) adds no integral.\<close>

type_synonym integral = "measure \<times> fspace \<times> (point \<Rightarrow> real)"

type_synonym form = "integral list"

definition times_measure :: "fspace \<Rightarrow> (point \<Rightarrow> real) \<Rightarrow> measure \<Rightarrow> form" where
  "times_measure w integrand m = [(m, w, integrand)]"

definition integrals_on :: "measure \<Rightarrow> form \<Rightarrow> form" where
  "integrals_on m frm = filter (\<lambda>i. fst i = m) frm"

text \<open>\<^verbatim>\<open>df.jump(v, n)\<close> for a vector and for a rank-2 \<open>v\<close>.\<close>

definition jump_vector :: "real list \<Rightarrow> real list \<Rightarrow> real list \<Rightarrow> real list \<Rightarrow> real" where
  "jump_vector v_plus n_plus v_minus n_minus = dot v_plus n_plus + dot v_minus n_minus"

definition jump_tensor :: "real list list \<Rightarrow> real list \<Rightarrow> real list list \<Rightarrow> real list \<Rightarrow> real list" where
  "jump_tensor v_plus n_plus v_minus n_minus =
     map2 (+) (matvec v_plus n_plus) (matvec v_minus n_minus)"

definition h_avg :: "point \<Rightarrow> real" where
  "h_avg e = (l_h (plus e) + l_h (minus e)) / 2.0"

text \<open>The projections on the normal \<open>n\<close> and the tangent \<open>t = perp n\<close>.\<close>

definition s_n :: "local \<Rightarrow> real" where
  "s_n x = dot (vals1 (l_s x)) (l_n x)"

definition r_n :: "local \<Rightarrow> real" where
  "r_n x = dot (vals1 (l_r x)) (l_n x)"

definition s_t :: "local \<Rightarrow> real" where
  "s_t x = dot (vals1 (l_s x)) (perp (l_n x))"

definition r_t :: "local \<Rightarrow> real" where
  "r_t x = dot (vals1 (l_r x)) (perp (l_n x))"

definition sigma_nn :: "local \<Rightarrow> real" where
  "sigma_nn x = dot (matvec (vals2 (l_sigma x)) (l_n x)) (l_n x)"

definition psi_nn :: "local \<Rightarrow> real" where
  "psi_nn x = dot (matvec (vals2 (l_psi x)) (l_n x)) (l_n x)"

definition sigma_tt :: "local \<Rightarrow> real" where
  "sigma_tt x = dot (matvec (vals2 (l_sigma x)) (perp (l_n x))) (perp (l_n x))"

definition psi_tt :: "local \<Rightarrow> real" where
  "psi_tt x = dot (matvec (vals2 (l_psi x)) (perp (l_n x))) (perp (l_n x))"

definition sigma_nt :: "local \<Rightarrow> real" where
  "sigma_nt x = dot (matvec (vals2 (l_sigma x)) (l_n x)) (perp (l_n x))"

definition psi_nt :: "local \<Rightarrow> real" where
  "psi_nt x = dot (matvec (vals2 (l_psi x)) (l_n x)) (perp (l_n x))"

subsection \<open>Functions and expressions of the toolkit\<close>

datatype dirichlet = DirichletBC fspace real int

text \<open>
  A function or expression is known by the calls that made it:
  \<^item> \<open>Solution a L w bcs solver_parameters\<close>: \<^verbatim>\<open>sol = df.Function(w)\<close> after
    \<^verbatim>\<open>df.solve(a == L, sol, bcs, solver_parameters=...)\<close>;
  \<^item> \<open>Split f i\<close>: \<^verbatim>\<open>f.split()[i]\<close>;
  \<^item> \<open>Interpolate f V\<close>, \<open>Project f V\<close>: \<^verbatim>\<open>df.interpolate(f, V)\<close>, \<^verbatim>\<open>df.project(f, V)\<close>;
  \<^item> \<open>Expression code degree tau\<close>: \<^verbatim>\<open>df.Expression(code, degree=..., tau=..., phi=..., R=...)\<close>
    with the polar coordinates \<open>phi\<close> and \<open>R\<close> of the solver;
  \<^item> \<open>CompiledExpression file cls degree\<close>: the class \<open>cls\<close> of the compiled C++ file;
  \<^item> \<open>Function_of_vector V xs\<close>: the function of \<open>V\<close> with coefficient vector \<open>xs\<close>;
  \<^item> \<open>Difference f g\<close>: the expression \<^verbatim>\<open>f - g\<close>.
\<close>

datatype field =
    Solution form form fspace "dirichlet list" "(string \<times> string) list"
  | Split field nat
  | Interpolate field fspace
  | Project field fspace
  | Expression string nat real
  | CompiledExpression string string nat
  | Function_of_vector fspace "real list"
  | Difference field field

text \<open>\<^verbatim>\<open>f.ufl_function_space().ufl_element()\<close>; an expression has no function space.\<close>

fun ufl_element :: "field \<Rightarrow> element option" where
  "ufl_element (Solution a L w dbcs sp) = Some (ufl_element_of w)"
| "ufl_element (Split f i) =
     (case ufl_element f of
        Some (MixedElement es) \<Rightarrow> (if i < length es then Some (es ! i) else None)
      | _ \<Rightarrow> None)"
| "ufl_element (Interpolate f V) = Some (ufl_element_of V)"
| "ufl_element (Project f V) = Some (ufl_element_of V)"
| "ufl_element (Function_of_vector V xs) = Some (ufl_element_of V)"
| "ufl_element (Expression c d t) = None"
| "ufl_element (CompiledExpression c n d) = None"
| "ufl_element (Difference f g) = None"

text \<open>
  What the toolkit computes numerically is a parameter: the coefficient vector of a
  function, \<^verbatim>\<open>df.errornorm\<close>, the vertex values of a function and the number of
  sub-functions \<^verbatim>\<open>len(f.split())\<close>.
\<close>

record toolkit =
  tk_vector :: "field \<Rightarrow> real list"
  tk_errornorm :: "field \<Rightarrow> field \<Rightarrow> string \<Rightarrow> real"
  tk_compute_vertex_values :: "field \<Rightarrow> real list"
  tk_num_sub :: "field \<Rightarrow> nat"

fun vector :: "toolkit \<Rightarrow> field \<Rightarrow> real list" where
  "vector tk (Function_of_vector V xs) = xs"
| "vector tk f = tk_vector tk f"

subsection \<open>The solver and its parameters\<close>

datatype var = K_theta | K_s | K_p | K_u | K_sigma

datatype mixed = K_heat | K_stress | K_coupled

record element_params =
  shape :: string
  degree :: nat

record bc =
  theta_w :: real
  v_t :: real

text \<open>The parameter dict. \<open>p_bcs\<close> lists the items of the dict \<^verbatim>\<open>params["bcs"]\<close> in its
  order, with distinct keys.\<close>

record params =
  p_mode :: string
  p_use_coeffs :: bool
  p_tau :: real
  p_xi_tilde :: real
  p_cip_enable :: bool
  p_delta_1 :: real
  p_delta_2 :: real
  p_delta_3 :: real
  p_bcs :: "(int \<times> bc) list"
  p_heat_source :: string
  p_mass_source :: string
  p_exact_solution :: string
  p_output_folder :: string
  p_case_name :: string
  p_elements :: "var \<Rightarrow> element_params"

record h5mesh =
  h5_mesh :: mesh
  h5_boundaries :: "nat list"

datatype err_value = Float real | Float_list "real list"

datatype exn =
    Exception_mesh_edge_has_no_bcs nat
  | ZeroDivisionError
  | UnboundLocalError string
  | AttributeError
  | ValueError

datatype outcome = Returned | Raised exn

text \<open>
  The attributes of a \<^verbatim>\<open>Solver\<close>. A dict whose keys are fixed by \<^verbatim>\<open>__init__\<close> is a
  function on its keys; the value \<open>None\<close> is Python's \<^verbatim>\<open>None\<close>. The two error
  dicts gain keys, so a key may be absent. \<open>xdmf_files\<close> is the file system: the
  writes made so far, each with file name, written field, the name it was renamed
  to and the time stamp.
\<close>

record solver =
  params :: params
  mesh :: mesh
  boundaries :: "nat list"
  cell :: cell
  time :: string
  mode :: string
  use_coeffs :: bool
  tau :: real
  xi_tilde :: real
  use_cip :: bool
  delta_1 :: real
  delta_2 :: real
  delta_3 :: real
  bcs :: "(int \<times> bc) list"
  heat_source :: field
  mass_source :: field
  exact_solution :: string
  output_folder :: string
  elems :: "var \<Rightarrow> element option"
  fspaces :: "var \<Rightarrow> fspace option"
  mxd_elems :: "mixed \<Rightarrow> element option"
  mxd_fspaces :: "mixed \<Rightarrow> fspace option"
  form_a :: "form option"
  form_b :: "form option"
  sol :: "var \<Rightarrow> field option"
  esol :: "var \<Rightarrow> field option"
  errors_f_l2 :: "var \<rightharpoonup> err_value option"
  errors_v_linf :: "var \<rightharpoonup> err_value option"
  xdmf_files :: "(string \<times> field \<times> string \<times> string) list"

text \<open>The dict \<^verbatim>\<open>var_ranks\<close> is a literal of \<^verbatim>\<open>__init__\<close> and is never assigned again.\<close>

definition var_ranks :: "var \<Rightarrow> nat" where
  "var_ranks v = (case v of K_theta \<Rightarrow> 0 | K_s \<Rightarrow> 1 | K_p \<Rightarrow> 0 | K_u \<Rightarrow> 1 | K_sigma \<Rightarrow> 2)"

text \<open>The keys of \<^verbatim>\<open>elems\<close> and of \<^verbatim>\<open>sol\<close>, in the order of the dict.\<close>

definition vars :: "var list" where
  "vars = [K_theta, K_s, K_p, K_u, K_sigma]"

definition init_with_folder :: "string \<Rightarrow> params \<Rightarrow> h5mesh \<Rightarrow> string \<Rightarrow> solver" where
  "init_with_folder folder prm msh tm = \<lparr>
     params = prm,
     mesh = h5_mesh msh,
     boundaries = h5_boundaries msh,
     cell = ufl_cell (h5_mesh msh),
     time = tm,
     mode = p_mode prm,
     use_coeffs = p_use_coeffs prm,
     tau = p_tau prm,
     xi_tilde = p_xi_tilde prm,
     use_cip = p_cip_enable prm,
     delta_1 = p_delta_1 prm,
     delta_2 = p_delta_2 prm,
     delta_3 = p_delta_3 prm,
     bcs = p_bcs prm,
     heat_source = Expression (p_heat_source prm) 2 (p_tau prm),
     mass_source = Expression (p_mass_source prm) 2 (p_tau prm),
     exact_solution = p_exact_solution prm,
     output_folder = folder,
     elems = (\<lambda>v. None),
     fspaces = (\<lambda>v. None),
     mxd_elems = (\<lambda>k. None),
     mxd_fspaces = (\<lambda>k. None),
     form_a = None,
     form_b = None,
     sol = (\<lambda>v. None),
     esol = (\<lambda>v. None),
     errors_f_l2 = [K_theta \<mapsto> None, K_s \<mapsto> None],
     errors_v_linf = [K_theta \<mapsto> None, K_s \<mapsto> None],
     xdmf_files = [] \<rparr>"

text \<open>\<^verbatim>\<open>__init__\<close>: the two revisions differ in the output folder.\<close>

definition init :: "params \<Rightarrow> h5mesh \<Rightarrow> string \<Rightarrow> solver" where
  "init prm msh tm = init_with_folder (p_output_folder prm) prm msh tm"

definition init_src :: "params \<Rightarrow> h5mesh \<Rightarrow> string \<Rightarrow> solver" where
  "init_src prm msh tm = init_with_folder (p_case_name prm @ ''/'') prm msh tm"

subsection \<open>\<^verbatim>\<open>setup_function_spaces\<close>\<close>

text \<open>The body of the loop over \<^verbatim>\<open>self.elems\<close>. \<^verbatim>\<open>df.FunctionSpace(msh, None)\<close> is
  refused by the toolkit.\<close>

definition setup_var :: "solver \<Rightarrow> var \<Rightarrow> outcome \<times> solver" where
  "setup_var s0 v = (let
      e = shape (p_elements (params s0) v);
      deg = degree (p_elements (params s0) v);
      s1 = (if var_ranks v = 0 then
              s0\<lparr>elems := (elems s0)(v := Some (FiniteElement e (cell s0) deg))\<rparr>
            else if var_ranks v = 1 then
              s0\<lparr>elems := (elems s0)(v := Some (VectorElement e (cell s0) deg))\<rparr>
            else if var_ranks v = 2 then
              s0\<lparr>elems := (elems s0)(v := Some (TensorElement e (cell s0) deg True))\<rparr>
            else s0)
    in case elems s1 v of
         None \<Rightarrow> (Raised AttributeError, s1)
       | Some el \<Rightarrow> (Returned, s1\<lparr>fspaces := (fspaces s1)(v := Some (FunctionSpace (mesh s1) el))\<rparr>))"

fun for_vars :: "(solver \<Rightarrow> var \<Rightarrow> outcome \<times> solver) \<Rightarrow> var list \<Rightarrow> solver \<Rightarrow> outcome \<times> solver" where
  "for_vars body [] s0 = (Returned, s0)"
| "for_vars body (v # vs) s0 =
     (case body s0 v of
        (Raised x, s1) \<Rightarrow> (Raised x, s1)
      | (Returned, s1) \<Rightarrow> for_vars body vs s1)"

text \<open>The three mixed spaces, from the call that builds the coupled element.\<close>

definition setup_mixed :: "(element list \<Rightarrow> element list \<Rightarrow> element) \<Rightarrow> solver \<Rightarrow> outcome \<times> solver" where
  "setup_mixed coupled_element s0 =
     (case those [elems s0 K_theta, elems s0 K_s] of
        None \<Rightarrow> (Raised AttributeError, s0)
      | Some heat_elems \<Rightarrow>
         (let heat = mixed_element [A_list heat_elems];
              s1 = s0\<lparr>mxd_elems := (mxd_elems s0)(K_heat := Some heat)\<rparr>;
              s2 = s1\<lparr>mxd_fspaces := (mxd_fspaces s1)(K_heat := Some (FunctionSpace (mesh s1) heat))\<rparr>
          in (case those [elems s2 K_p, elems s2 K_u, elems s2 K_sigma] of
                None \<Rightarrow> (Raised AttributeError, s2)
              | Some stress_elems \<Rightarrow>
                 (let stress = mixed_element [A_list stress_elems];
                      s3 = s2\<lparr>mxd_elems := (mxd_elems s2)(K_stress := Some stress)\<rparr>;
                      s4 = s3\<lparr>mxd_fspaces := (mxd_fspaces s3)(K_stress :=
                             Some (FunctionSpace (mesh s3) stress))\<rparr>;
                      coupled = coupled_element heat_elems stress_elems;
                      s5 = s4\<lparr>mxd_elems := (mxd_elems s4)(K_coupled := Some coupled)\<rparr>;
                      s6 = s5\<lparr>mxd_fspaces := (mxd_fspaces s5)(K_coupled :=
                             Some (FunctionSpace (mesh s5) coupled))\<rparr>
                  in (Returned, s6)))))"

text \<open>\<^verbatim>\<open>fenicsR13/src/solver.py\<close>: \<^verbatim>\<open>df.MixedElement(heat_elems, stress_elems)\<close>.\<close>

definition setup_function_spaces :: "solver \<Rightarrow> outcome \<times> solver" where
  "setup_function_spaces s0 =
     (case for_vars setup_var vars s0 of
        (Raised x, s1) \<Rightarrow> (Raised x, s1)
      | (Returned, s1) \<Rightarrow>
          setup_mixed (\<lambda>heat_elems stress_elems.
            mixed_element [A_list heat_elems, A_list stress_elems]) s1)"

text \<open>\<^verbatim>\<open>src/src/solver.py\<close>: \<^verbatim>\<open>df.MixedElement(heat_elems + stress_elems)\<close>.\<close>

definition setup_function_spaces_src :: "solver \<Rightarrow> outcome \<times> solver" where
  "setup_function_spaces_src s0 =
     (case for_vars setup_var vars s0 of
        (Raised x, s1) \<Rightarrow> (Raised x, s1)
      | (Returned, s1) \<Rightarrow>
          setup_mixed (\<lambda>heat_elems stress_elems.
            mixed_element [A_list (heat_elems @ stress_elems)]) s1)"

subsection \<open>\<^verbatim>\<open>check_bcs\<close>\<close>

text \<open>The loop over the boundary ids raises at the first id that is neither 0 nor a
  key of \<^verbatim>\<open>bcs\<close>; the exception carries the id.\<close>

fun check_edges :: "int list \<Rightarrow> nat list \<Rightarrow> outcome" where
  "check_edges bcs_specified [] = Returned"
| "check_edges bcs_specified (edge_id # rest) =
     (if int edge_id \<notin> set ([0] @ bcs_specified)
      then Raised (Exception_mesh_edge_has_no_bcs edge_id)
      else check_edges bcs_specified rest)"

definition check_bcs :: "solver \<Rightarrow> outcome \<times> solver" where
  "check_bcs s0 = (let
      boundary_ids = boundaries s0;
      bcs_specified = map fst (bcs s0)
    in (check_edges bcs_specified boundary_ids, s0))"

subsection \<open>\<^verbatim>\<open>assemble\<close>: the weak forms\<close>

text \<open>\<^verbatim>\<open>df.jump(df.grad(f), n)\<close> for a scalar and for a vector \<open>f\<close>.\<close>

definition jump_grad_scalar :: "(local \<Rightarrow> jet) \<Rightarrow> point \<Rightarrow> real" where
  "jump_grad_scalar f e =
     jump_vector (grad_scalar (f (plus e))) (l_n (plus e))
                 (grad_scalar (f (minus e))) (l_n (minus e))"

definition jump_grad_vector :: "(local \<Rightarrow> jet list) \<Rightarrow> point \<Rightarrow> real list" where
  "jump_grad_vector f e =
     jump_tensor (grad_vector (f (plus e))) (l_n (plus e))
                 (grad_vector (f (minus e))) (l_n (minus e))"

text \<open>The heat system, \<^verbatim>\<open>if self.use_coeffs\<close>; \<open>dev3d'\<close> is the deviator in use.\<close>

definition heat_a1_coeffs ::
  "(real list list \<Rightarrow> real list list) \<Rightarrow> fspace \<Rightarrow> real \<Rightarrow> real \<Rightarrow> form" where
  "heat_a1_coeffs dev3d' w tau' xi_tilde' =
     times_measure w (\<lambda>e.
         12/5 * tau' * inner2 (dev3d' (grad_vector (l_s (here e)))) (grad_vector (l_r (here e)))
       + 2/3 * (1/tau') * inner1 (vals1 (l_s (here e))) (vals1 (l_r (here e)))
       - (5/2) * jval (l_theta (here e)) * div_vector (l_r (here e))) df_dx
   @ times_measure w (\<lambda>e.
         5/(4*xi_tilde') * s_n (here e) * r_n (here e)
       + 11/10 * xi_tilde' * s_t (here e) * r_t (here e)) df_ds"

definition heat_l1_coeffs :: "fspace \<Rightarrow> (int \<times> bc) list \<Rightarrow> form" where
  "heat_l1_coeffs w bcs' =
     concat (map (\<lambda>(bc, b).
       times_measure w (\<lambda>e. - 5.0/2.0 * r_n (here e) * theta_w b) (df_ds_sub bc)) bcs')"

text \<open>The heat system without coefficients.\<close>

definition heat_a1_plain ::
  "(real list list \<Rightarrow> real list list) \<Rightarrow> fspace \<Rightarrow> real \<Rightarrow> real \<Rightarrow> form" where
  "heat_a1_plain dev3d' w tau' xi_tilde' =
     times_measure w (\<lambda>e.
         tau' * inner2 (dev3d' (grad_vector (l_s (here e)))) (grad_vector (l_r (here e)))
       + (1/tau') * inner1 (vals1 (l_s (here e))) (vals1 (l_r (here e)))
       - jval (l_theta (here e)) * div_vector (l_r (here e))) df_dx
   @ times_measure w (\<lambda>e.
         1/(xi_tilde') * s_n (here e) * r_n (here e)
       + xi_tilde' * s_t (here e) * r_t (here e)) df_ds"

definition heat_l1_plain :: "fspace \<Rightarrow> (int \<times> bc) list \<Rightarrow> form" where
  "heat_l1_plain w bcs' =
     concat (map (\<lambda>(bc, b).
       times_measure w (\<lambda>e. - 1 * r_n (here e) * theta_w b) (df_ds_sub bc)) bcs')"

definition heat_a2 :: "fspace \<Rightarrow> form" where
  "heat_a2 w =
     times_measure w (\<lambda>e. - (div_vector (l_s (here e)) * jval (l_kappa (here e)))) df_dx"

definition heat_l2 :: "fspace \<Rightarrow> form" where
  "heat_l2 w =
     times_measure w (\<lambda>e. - (l_heat_source (here e) * jval (l_kappa (here e)))) df_dx"

definition stab_heat :: "fspace \<Rightarrow> real \<Rightarrow> form" where
  "stab_heat w delta_1' =
     times_measure w (\<lambda>e.
       - (delta_1' * h_avg e ^ 3 * jump_grad_scalar l_theta e * jump_grad_scalar l_kappa e)) df_dS"

text \<open>The stress system. \<open>c_nn\<close> is the coefficient of \<open>sigma_nn * psi_nn\<close> in the
  boundary integral, where the two revisions differ.\<close>

definition stress_a1 ::
  "(jet list list \<Rightarrow> jet list list \<Rightarrow> real) \<Rightarrow> (real list list \<Rightarrow> real list list \<Rightarrow> real)
     \<Rightarrow> real \<Rightarrow> fspace \<Rightarrow> real \<Rightarrow> real \<Rightarrow> form" where
  "stress_a1 innerOfDevOfGrad2AndGrad2' innerOfTracefree2' c_nn w tau' xi_tilde' =
     times_measure w (\<lambda>e.
         2 * tau' * innerOfDevOfGrad2AndGrad2' (l_sigma (here e)) (l_psi (here e))
       + (1/tau') * innerOfTracefree2' (vals2 (l_sigma (here e))) (vals2 (l_psi (here e)))
       - 2 * dot (vals1 (l_u (here e))) (div_tensor (sym (l_psi (here e))))) df_dx
   @ times_measure w (\<lambda>e.
         c_nn * sigma_nn (here e) * psi_nn (here e)
       + 2 * xi_tilde' * (
           (sigma_tt (here e) + (1/2) * sigma_nn (here e))
           * (psi_tt (here e) + (1/2) * psi_nn (here e)))
       + (2/xi_tilde') * sigma_nt (here e) * psi_nt (here e)) df_ds"

definition stress_l1 :: "fspace \<Rightarrow> (int \<times> bc) list \<Rightarrow> form" where
  "stress_l1 w bcs' =
     concat (map (\<lambda>(bc, b).
       times_measure w (\<lambda>e. - 2.0 * psi_nt (here e) * v_t b) (df_ds_sub bc)) bcs')"

definition stress_a2 :: "fspace \<Rightarrow> form" where
  "stress_a2 w =
     times_measure w (\<lambda>e.
         dot (div_tensor (l_sigma (here e))) (vals1 (l_v (here e)))
       + dot (grad_scalar (l_p (here e))) (vals1 (l_v (here e)))) df_dx"

definition stress_l2 :: "fspace \<Rightarrow> form" where
  "stress_l2 w = times_measure w (\<lambda>e. 0 * div_vector (l_v (here e))) df_dx"

definition stress_a3 :: "fspace \<Rightarrow> form" where
  "stress_a3 w =
     times_measure w (\<lambda>e. dot (vals1 (l_u (here e))) (grad_scalar (l_q (here e)))) df_dx"

definition stress_l3 :: "fspace \<Rightarrow> form" where
  "stress_l3 w =
     times_measure w (\<lambda>e. - (l_mass_source (here e) * jval (l_q (here e)))) df_dx"

definition stab_stress :: "fspace \<Rightarrow> real \<Rightarrow> real \<Rightarrow> form" where
  "stab_stress w delta_2' delta_3' =
     times_measure w (\<lambda>e.
         delta_2' * h_avg e ^ 3 * dot (jump_grad_vector l_u e) (jump_grad_vector l_v e)
       - delta_3' * h_avg e * jump_grad_scalar l_p e * jump_grad_scalar l_q e) df_dS"

text \<open>
  \<^verbatim>\<open>assemble\<close> of \<^verbatim>\<open>fenicsR13/src/solver.py\<close>. The trial and test functions of a
  function space that is still \<^verbatim>\<open>None\<close> are refused by the toolkit. In stress mode the
  forms \<^verbatim>\<open>a1, a2, a3, l1, l2, l3\<close> are assigned only under \<^verbatim>\<open>if self.use_coeffs\<close>;
  without it the sum \<^verbatim>\<open>a1 + a2 + a3 + stab\<close> reads the unassigned local \<^verbatim>\<open>a1\<close>.
\<close>

definition assemble :: "solver \<Rightarrow> outcome \<times> solver" where
  "assemble s0 =
     (case check_bcs s0 of
        (Raised x, s1) \<Rightarrow> (Raised x, s1)
      | (Returned, s1) \<Rightarrow>
     (if mode s1 = ''heat'' then
        (case mxd_fspaces s1 K_heat of
           None \<Rightarrow> (Raised AttributeError, s1)
         | Some w \<Rightarrow>
        (if tau s1 = 0 \<or> xi_tilde s1 = 0 then (Raised ZeroDivisionError, s1)
         else (let
           a1 = (if use_coeffs s1 then heat_a1_coeffs dev3d w (tau s1) (xi_tilde s1)
                 else heat_a1_plain dev3d w (tau s1) (xi_tilde s1));
           a2 = heat_a2 w;
           l1 = (if use_coeffs s1 then heat_l1_coeffs w (bcs s1) else heat_l1_plain w (bcs s1));
           l2 = heat_l2 w;
           stab = (if use_cip s1 then stab_heat w (delta_1 s1) else []);
           s2 = s1\<lparr>form_a := Some (a1 @ a2 @ stab)\<rparr>;
           s3 = s2\<lparr>form_b := Some (l1 @ l2)\<rparr>
         in (Returned, s3))))
      else if mode s1 = ''stress'' then
        (case mxd_fspaces s1 K_stress of
           None \<Rightarrow> (Raised AttributeError, s1)
         | Some w \<Rightarrow>
        (if use_coeffs s1 then
           (if tau s1 = 0 \<or> xi_tilde s1 = 0 then (Raised ZeroDivisionError, s1)
            else (let
              a1 = stress_a1 innerOfDevOfGrad2AndGrad2 innerOfTracefree2
                     (21/(10 * xi_tilde s1)) w (tau s1) (xi_tilde s1);
              l1 = stress_l1 w (bcs s1);
              a2 = stress_a2 w;
              l2 = stress_l2 w;
              a3 = stress_a3 w;
              l3 = stress_l3 w;
              stab = (if use_cip s1 then stab_stress w (delta_2 s1) (delta_3 s1) else []);
              s2 = s1\<lparr>form_a := Some (a1 @ a2 @ a3 @ stab)\<rparr>;
              s3 = s2\<lparr>form_b := Some (l1 @ l2 @ l3)\<rparr>
            in (Returned, s3)))
         else (Raised (UnboundLocalError ''a1''), s1)))
      else (Returned, s1)))"

text \<open>
  \<^verbatim>\<open>assemble\<close> of \<^verbatim>\<open>src/src/solver.py\<close>. The trial and test functions of the heat
  and of the stress space are both made unless the mode is coupled; all weak forms
  are built before the mode selects among them. Without \<^verbatim>\<open>use_coeffs\<close> only
  \<^verbatim>\<open>a1, a2, l1, l2\<close> are assigned, and the stress and coupled sums read the unassigned
  local \<^verbatim>\<open>a3\<close> (coupled: after \<^verbatim>\<open>a1 + a2 + stab_heat\<close>).
\<close>

definition assemble_src :: "tensoroperations \<Rightarrow> solver \<Rightarrow> outcome \<times> solver" where
  "assemble_src to s0 =
     (case check_bcs s0 of
        (Raised x, s1) \<Rightarrow> (Raised x, s1)
      | (Returned, s1) \<Rightarrow>
     (case (if mode s1 = ''coupled''
            then map_option (\<lambda>w. (w, w)) (mxd_fspaces s1 K_coupled)
            else (case (mxd_fspaces s1 K_heat, mxd_fspaces s1 K_stress) of
                    (Some w_heat, Some w_stress) \<Rightarrow> Some (w_heat, w_stress)
                  | _ \<Rightarrow> None)) of
        None \<Rightarrow> (Raised AttributeError, s1)
      | Some (wh, ws) \<Rightarrow>
     (if tau s1 = 0 \<or> xi_tilde s1 = 0 then (Raised ZeroDivisionError, s1)
      else (let
        a1 = (if use_coeffs s1 then heat_a1_coeffs (to_dev3d to) wh (tau s1) (xi_tilde s1)
              else heat_a1_plain (to_dev3d to) wh (tau s1) (xi_tilde s1));
        l1 = (if use_coeffs s1 then heat_l1_coeffs wh (bcs s1) else heat_l1_plain wh (bcs s1));
        a2 = heat_a2 wh;
        l2 = heat_l2 wh;
        a3 = stress_a1 (to_innerOfDevOfGrad2AndGrad2 to) (to_innerOfTracefree2 to)
               (21/10 * xi_tilde s1) ws (tau s1) (xi_tilde s1);
        l3 = stress_l1 ws (bcs s1);
        a4 = stress_a2 ws;
        l4 = stress_l2 ws;
        a5 = stress_a3 ws;
        l5 = stress_l3 ws;
        stab_heat' = (if use_cip s1 then stab_heat wh (delta_1 s1) else []);
        stab_stress' = (if use_cip s1 then stab_stress ws (delta_2 s1) (delta_3 s1) else [])
      in
        (if mode s1 = ''heat'' then
           (let s2 = s1\<lparr>form_a := Some (a1 @ a2 @ stab_heat')\<rparr>;
                s3 = s2\<lparr>form_b := Some (l1 @ l2)\<rparr>
            in (Returned, s3))
         else if mode s1 = ''stress'' then
           (if use_coeffs s1 then
              (let s2 = s1\<lparr>form_a := Some (a3 @ a4 @ a5 @ stab_stress')\<rparr>;
                   s3 = s2\<lparr>form_b := Some (l3 @ l4 @ l5)\<rparr>
               in (Returned, s3))
            else (Raised (UnboundLocalError ''a3''), s1))
         else if mode s1 = ''coupled'' then
           (if use_coeffs s1 then
              (let s2 = s1\<lparr>form_a := Some (a1 @ a2 @ stab_heat' @ a3 @ a4 @ a5 @ stab_stress')\<rparr>;
                   s3 = s2\<lparr>form_b := Some (l1 @ l2 @ l3 @ l4 @ l5)\<rparr>
               in (Returned, s3))
            else (Raised (UnboundLocalError ''a3''), s1))
         else (Returned, s1))))))"

subsection \<open>\<^verbatim>\<open>calc_sf_mean\<close> and \<^verbatim>\<open>solve\<close>\<close>

text \<open>
  \<^verbatim>\<open>fenicsR13/src/solver.py\<close>: \<^verbatim>\<open>np.mean(scalar_function.vector()[:])\<close>. The mean of
  no entries is not a number (\<open>None\<close>).
\<close>

definition calc_sf_mean :: "toolkit \<Rightarrow> field \<Rightarrow> real option" where
  "calc_sf_mean tk scalar_function = (let v = vector tk scalar_function in
     if v = [] then None else Some (sum_list v / real (length v)))"

text \<open>\<^verbatim>\<open>src/src/solver.py\<close>: \<^verbatim>\<open>v.sum()/v.size()\<close>, a division by the integer zero for
  no entries.\<close>

definition calc_sf_mean_src :: "toolkit \<Rightarrow> field \<Rightarrow> exn + real" where
  "calc_sf_mean_src tk scalar_function = (let v = vector tk scalar_function in
     if length v = 0 then Inl ZeroDivisionError else Inr (sum_list v / real (length v)))"

text \<open>\<^verbatim>\<open>f.split()\<close>: the sub-functions of a function of a space made by
  \<^verbatim>\<open>MixedElement\<close>, as the mixed spaces of the solver are; on any other function the
  call fails here.\<close>

definition split :: "field \<Rightarrow> field list option" where
  "split f = (case ufl_element f of
       Some (MixedElement es) \<Rightarrow> Some (map (Split f) [0..<length es])
     | _ \<Rightarrow> None)"

text \<open>
  Scale the pressure to zero mean: \<^verbatim>\<open>mean_p_fct\<close> is the function of the pressure
  space with every coefficient set to the mean, and \<^verbatim>\<open>p_i.assign(p_i - mean_p_fct)\<close>
  subtracts the coefficient vectors. \<open>mean_p_value\<close> is \<open>None\<close> for the mean that is
  not a number, which arises only when there is no coefficient.
\<close>

definition zero_mean_pressure :: "toolkit \<Rightarrow> fspace \<Rightarrow> field \<Rightarrow> real option \<Rightarrow> field" where
  "zero_mean_pressure tk V p_i mean_p_value = (let
      mean_p_fct = Function_of_vector V
        (case mean_p_value of Some m \<Rightarrow> map (\<lambda>x. m) (vector tk p_i) | None \<Rightarrow> [])
    in Function_of_vector V (map2 (-) (vector tk p_i) (vector tk mean_p_fct)))"

definition solve :: "toolkit \<Rightarrow> solver \<Rightarrow> outcome \<times> solver" where
  "solve tk s0 =
     (if mode s0 = ''heat'' then
        (case (mxd_fspaces s0 K_heat, form_a s0, form_b s0) of
           (Some w, Some a, Some L) \<Rightarrow>
             (let sol' = Solution a L w [] [(''linear_solver'', ''mumps'')]
              in case split sol' of
                   Some [sol_theta, sol_s] \<Rightarrow>
                     (Returned, s0\<lparr>sol := (sol s0)(K_theta := Some sol_theta, K_s := Some sol_s)\<rparr>)
                 | Some other \<Rightarrow> (Raised ValueError, s0)
                 | None \<Rightarrow> (Raised AttributeError, s0))
         | _ \<Rightarrow> (Raised AttributeError, s0))
      else if mode s0 = ''stress'' then
        (case (mxd_fspaces s0 K_stress, form_a s0, form_b s0) of
           (Some w, Some a, Some L) \<Rightarrow>
             (let sol' = Solution a L w [] [(''linear_solver'', ''direct'')]
              in case split sol' of
                   Some [sol_p, sol_u, sol_sigma] \<Rightarrow>
                     (let s1 = s0\<lparr>sol := (sol s0)(K_p := Some sol_p, K_u := Some sol_u,
                                                   K_sigma := Some sol_sigma)\<rparr>
                      in case fspaces s1 K_p of
                           None \<Rightarrow> (Raised AttributeError, s1)
                         | Some V \<Rightarrow>
                             (let p_i = Interpolate sol_p V;
                                  mean_p_value = calc_sf_mean tk p_i;
                                  p_i' = zero_mean_pressure tk V p_i mean_p_value
                              in (Returned, s1\<lparr>sol := (sol s1)(K_p := Some p_i')\<rparr>)))
                 | Some other \<Rightarrow> (Raised ValueError, s0)
                 | None \<Rightarrow> (Raised AttributeError, s0))
         | _ \<Rightarrow> (Raised AttributeError, s0))
      else (Returned, s0))"

text \<open>\<^verbatim>\<open>solve\<close> of \<^verbatim>\<open>src/src/solver.py\<close>: one call of the linear solver for the three
  modes; in any other mode the local \<^verbatim>\<open>w\<close> is unassigned.\<close>

definition solve_src :: "toolkit \<Rightarrow> solver \<Rightarrow> outcome \<times> solver" where
  "solve_src tk s0 =
     (if mode s0 \<noteq> ''heat'' \<and> mode s0 \<noteq> ''stress'' \<and> mode s0 \<noteq> ''coupled''
      then (Raised (UnboundLocalError ''w''), s0)
      else
        (case (mxd_fspaces s0 (if mode s0 = ''heat'' then K_heat
                               else if mode s0 = ''stress'' then K_stress else K_coupled),
               form_a s0, form_b s0) of
           (Some w, Some a, Some L) \<Rightarrow>
             (let sol' = Solution a L w [] [(''linear_solver'', ''mumps'')]
              in case (if mode s0 = ''heat'' then
                         (case split sol' of
                            Some [sol_theta, sol_s] \<Rightarrow>
                              (Returned, s0\<lparr>sol := (sol s0)(K_theta := Some sol_theta,
                                                              K_s := Some sol_s)\<rparr>)
                          | Some other \<Rightarrow> (Raised ValueError, s0)
                          | None \<Rightarrow> (Raised AttributeError, s0))
                       else if mode s0 = ''stress'' then
                         (case split sol' of
                            Some [sol_p, sol_u, sol_sigma] \<Rightarrow>
                              (Returned, s0\<lparr>sol := (sol s0)(K_p := Some sol_p, K_u := Some sol_u,
                                                              K_sigma := Some sol_sigma)\<rparr>)
                          | Some other \<Rightarrow> (Raised ValueError, s0)
                          | None \<Rightarrow> (Raised AttributeError, s0))
                       else
                         (case split sol' of
                            Some [sol_theta, sol_s, sol_p, sol_u, sol_sigma] \<Rightarrow>
                              (Returned, s0\<lparr>sol := (sol s0)(K_theta := Some sol_theta,
                                 K_s := Some sol_s, K_p := Some sol_p, K_u := Some sol_u,
                                 K_sigma := Some sol_sigma)\<rparr>)
                          | Some other \<Rightarrow> (Raised ValueError, s0)
                          | None \<Rightarrow> (Raised AttributeError, s0))) of
                   (Raised x, s1) \<Rightarrow> (Raised x, s1)
                 | (Returned, s1) \<Rightarrow>
                     (if mode s1 = ''stress'' \<or> mode s1 = ''coupled'' then
                        (case (sol s1 K_p, fspaces s1 K_p) of
                           (Some sol_p, Some V) \<Rightarrow>
                             (let p_i = Interpolate sol_p V
                              in case calc_sf_mean_src tk p_i of
                                   Inl x \<Rightarrow> (Raised x, s1)
                                 | Inr mean_p_value \<Rightarrow>
                                     (let p_i' = zero_mean_pressure tk V p_i (Some mean_p_value)
                                      in (Returned, s1\<lparr>sol := (sol s1)(K_p := Some p_i')\<rparr>)))
                         | _ \<Rightarrow> (Raised AttributeError, s1))
                      else (Returned, s1)))
         | _ \<Rightarrow> (Raised AttributeError, s0)))"

subsection \<open>\<^verbatim>\<open>write_xdmf\<close> and \<^verbatim>\<open>write_solutions\<close>\<close>

text \<open>
  The loop \<^verbatim>\<open>for degree in range(5)\<close>: the element of the field is compared with the
  symmetric tensor element of \<^verbatim>\<open>FiniteElement("Lagrange", df.triangle, degree+1)\<close>; at
  the first match the field is projected and the loop is left.
\<close>

fun remove_symmetry :: "mesh \<Rightarrow> nat list \<Rightarrow> field \<Rightarrow> exn + field" where
  "remove_symmetry msh [] fld = Inr fld"
| "remove_symmetry msh (deg # degs) fld = (let
      el_symm = TensorElement ''Lagrange'' triangle (deg + 1) True
    in case ufl_element fld of
         None \<Rightarrow> Inl AttributeError
       | Some el_sol \<Rightarrow>
           (if el_sol = el_symm
            then Inr (Project fld (TensorFunctionSpace msh ''Lagrange'' (deg + 1)))
            else remove_symmetry msh degs fld))"

definition write_xdmf :: "string \<Rightarrow> field \<Rightarrow> solver \<Rightarrow> outcome \<times> solver" where
  "write_xdmf name fld s0 = (let
      filename = output_folder s0 @ name @ ''_'' @ time s0 @ ''.xdmf''
    in case remove_symmetry (mesh s0) [0..<5] fld of
         Inl x \<Rightarrow> (Raised x, s0)
       | Inr fld' \<Rightarrow>
           (Returned, s0\<lparr>xdmf_files := xdmf_files s0 @ [(filename, fld', name, time s0)]\<rparr>))"




subsection \<open>\<^verbatim>\<open>calc_errors\<close>\<close>

text \<open>\<^verbatim>\<open>df.norm(x, "linf")\<close>: the largest absolute value of an entry.\<close>

definition norm_linf :: "real list \<Rightarrow> real" where
  "norm_linf xs = foldr (\<lambda>x m. max \<bar>x\<bar> m) xs 0"

text \<open>\<^verbatim>\<open>np.max(np.abs(a - b))\<close>, which raises on arrays without entries.\<close>

definition np_max_abs_diff :: "real list \<Rightarrow> real list \<Rightarrow> real option" where
  "np_max_abs_diff a b = (case map2 (\<lambda>x y. \<bar>x - y\<bar>) a b of
       [] \<Rightarrow> None
     | d # ds \<Rightarrow> Some (foldr max ds d))"

definition calc_scalarfield_errors ::
  "toolkit \<Rightarrow> field option \<Rightarrow> field option \<Rightarrow> fspace option \<Rightarrow> string \<Rightarrow> solver
     \<Rightarrow> (exn + err_value \<times> err_value) \<times> solver" where
  "calc_scalarfield_errors tk sol_opt sol_e_opt v_sol_opt name' s0 =
     (case (sol_opt, sol_e_opt, v_sol_opt) of
        (Some sol', Some sol_e', Some v_sol) \<Rightarrow>
          (let field_e_i = Interpolate sol_e' v_sol;
               field_i = Interpolate sol' v_sol;
               difference = Project (Difference sol_e' sol') v_sol
           in case write_xdmf (''difference_'' @ name') difference s0 of
                (Raised x, s1) \<Rightarrow> (Inl x, s1)
              | (Returned, s1) \<Rightarrow>
                  (let err_f_L2 = tk_errornorm tk sol_e' sol' ''L2'';
                       err_v_linf = norm_linf (map2 (-) (vector tk field_e_i) (vector tk field_i))
                   in case write_xdmf (name' @ ''_e'') field_e_i s1 of
                        (Raised x, s2) \<Rightarrow> (Inl x, s2)
                      | (Returned, s2) \<Rightarrow> (Inr (Float err_f_L2, Float err_v_linf), s2)))
      | _ \<Rightarrow> (Inl AttributeError, s0))"

text \<open>
  \<^verbatim>\<open>calc_vectorfield_errors\<close> and \<^verbatim>\<open>calc_tensorfield_errors\<close> differ in the
  expression that is projected for the difference file: \<^verbatim>\<open>sol_e_ - sol_\<close> for a
  vector, \<^verbatim>\<open>field_e_i - field_i\<close> for a tensor.
\<close>

definition calc_componentwise_errors ::
  "bool \<Rightarrow> toolkit \<Rightarrow> field option \<Rightarrow> field option \<Rightarrow> fspace option \<Rightarrow> string \<Rightarrow> solver
     \<Rightarrow> (exn + err_value \<times> err_value) \<times> solver" where
  "calc_componentwise_errors tensor tk sol_opt sol_e_opt v_sol_opt name' s0 =
     (case (sol_opt, sol_e_opt, v_sol_opt) of
        (Some sol', Some sol_e', Some v_sol) \<Rightarrow>
          (let field_e_i = Interpolate sol_e' v_sol;
               field_i = Interpolate sol' v_sol;
               difference = (if tensor then Project (Difference field_e_i field_i) v_sol
                             else Project (Difference sol_e' sol') v_sol)
           in case write_xdmf (''difference_'' @ name') difference s0 of
                (Raised x, s1) \<Rightarrow> (Inl x, s1)
              | (Returned, s1) \<Rightarrow>
                  (let dofs = tk_num_sub tk field_e_i;
                       errs_f_L2 = map (\<lambda>i.
                           tk_errornorm tk (Split field_e_i i) (Split field_i i) ''L2'') [0..<dofs]
                   in case those (map (\<lambda>i. np_max_abs_diff
                               (tk_compute_vertex_values tk (Split field_e_i i))
                               (tk_compute_vertex_values tk (Split field_i i))) [0..<dofs]) of
                        None \<Rightarrow> (Inl ValueError, s1)
                      | Some errs_v_linf \<Rightarrow>
                          (case write_xdmf (name' @ ''_e'') field_e_i s1 of
                             (Raised x, s2) \<Rightarrow> (Inl x, s2)
                           | (Returned, s2) \<Rightarrow>
                               (Inr (Float_list errs_f_L2, Float_list errs_v_linf), s2))))
      | _ \<Rightarrow> (Inl AttributeError, s0))"

definition calc_vectorfield_errors ::
  "toolkit \<Rightarrow> field option \<Rightarrow> field option \<Rightarrow> fspace option \<Rightarrow> string \<Rightarrow> solver
     \<Rightarrow> (exn + err_value \<times> err_value) \<times> solver" where
  "calc_vectorfield_errors = calc_componentwise_errors False"

definition calc_tensorfield_errors ::
  "toolkit \<Rightarrow> field option \<Rightarrow> field option \<Rightarrow> fspace option \<Rightarrow> string \<Rightarrow> solver
     \<Rightarrow> (exn + err_value \<times> err_value) \<times> solver" where
  "calc_tensorfield_errors = calc_componentwise_errors True"

text \<open>The assignment \<^verbatim>\<open>(f_l2[name], v_linf[name]) = pair\<close>.\<close>

definition store_errors :: "var \<Rightarrow> err_value \<times> err_value \<Rightarrow> solver \<Rightarrow> solver" where
  "store_errors v pair s0 =
     s0\<lparr>errors_f_l2 := (errors_f_l2 s0)(v \<mapsto> Some (fst pair)),
        errors_v_linf := (errors_v_linf s0)(v \<mapsto> Some (snd pair))\<rparr>"

definition calc_errors_heat :: "toolkit \<Rightarrow> solver \<Rightarrow> outcome \<times> solver" where
  "calc_errors_heat tk s0 =
     (case calc_scalarfield_errors tk (sol s0 K_theta) (esol s0 K_theta) (fspaces s0 K_theta)
             ''theta'' s0 of
        (Inl x, s1) \<Rightarrow> (Raised x, s1)
      | (Inr se, s1) \<Rightarrow>
     (case calc_vectorfield_errors tk (sol s1 K_s) (esol s1 K_s) (fspaces s1 K_s) ''s'' s1 of
        (Inl x, s2) \<Rightarrow> (Raised x, s2)
      | (Inr ve, s2) \<Rightarrow> (Returned, store_errors K_s ve (store_errors K_theta se s2))))"

definition calc_errors_stress :: "toolkit \<Rightarrow> solver \<Rightarrow> outcome \<times> solver" where
  "calc_errors_stress tk s0 =
     (case calc_scalarfield_errors tk (sol s0 K_p) (esol s0 K_p) (fspaces s0 K_p) ''p'' s0 of
        (Inl x, s1) \<Rightarrow> (Raised x, s1)
      | (Inr se, s1) \<Rightarrow>
     (case calc_vectorfield_errors tk (sol s1 K_u) (esol s1 K_u) (fspaces s1 K_u) ''u'' s1 of
        (Inl x, s2) \<Rightarrow> (Raised x, s2)
      | (Inr ve, s2) \<Rightarrow>
     (case calc_tensorfield_errors tk (sol s2 K_sigma) (esol s2 K_sigma) (fspaces s2 K_sigma)
             ''sigma'' s2 of
        (Inl x, s3) \<Rightarrow> (Raised x, s3)
      | (Inr te, s3) \<Rightarrow>
          (Returned, store_errors K_sigma te (store_errors K_u ve (store_errors K_p se s3))))))"

text \<open>\<^verbatim>\<open>calc_errors\<close>: two \<^verbatim>\<open>if\<close> statements in sequence; the second revision also
  takes both in the coupled mode.\<close>

definition calc_errors_modes :: "string list \<Rightarrow> toolkit \<Rightarrow> solver \<Rightarrow> outcome \<times> solver" where
  "calc_errors_modes also tk s0 =
     (case (if mode s0 = ''heat'' \<or> mode s0 \<in> set also then calc_errors_heat tk s0
            else (Returned, s0)) of
        (Raised x, s1) \<Rightarrow> (Raised x, s1)
      | (Returned, s1) \<Rightarrow>
          (if mode s1 = ''stress'' \<or> mode s1 \<in> set also then calc_errors_stress tk s1
           else (Returned, s1)))"

definition calc_errors :: "toolkit \<Rightarrow> solver \<Rightarrow> outcome \<times> solver" where
  "calc_errors = calc_errors_modes []"

definition calc_errors_src :: "toolkit \<Rightarrow> solver \<Rightarrow> outcome \<times> solver" where
  "calc_errors_src = calc_errors_modes [''coupled'']"

subsection \<open>Concrete inputs\<close>

text \<open>A parameter dict and a ring mesh with the boundary tags 3000 and 3100, as the
  cases of the repository use them, and the solver \<^verbatim>\<open>Solver(params, msh, "0")\<close>.\<close>

definition example_params :: params where
  "example_params = \<lparr>
     p_mode = ''heat'', p_use_coeffs = True, p_tau = 1/10, p_xi_tilde = 2,
     p_cip_enable = True, p_delta_1 = 1, p_delta_2 = 1, p_delta_3 = 1/100,
     p_bcs = [(3000, \<lparr>theta_w = 1, v_t = 0\<rparr>), (3100, \<lparr>theta_w = 1/2, v_t = 0\<rparr>)],
     p_heat_source = ''0'', p_mass_source = ''0'',
     p_exact_solution = ''esols/1.cpp'',
     p_output_folder = ''results/'', p_case_name = ''results'',
     p_elements = (\<lambda>v. \<lparr>shape = ''Lagrange'', degree = 1\<rparr>) \<rparr>"

definition example_mesh :: h5mesh where
  "example_mesh = \<lparr> h5_mesh = Mesh triangle ''ring0.h5'', h5_boundaries = [0, 3000, 3100, 0] \<rparr>"

definition example_solver :: solver where
  "example_solver = init example_params example_mesh ''0''"

text \<open>A toolkit whose functions have three coefficients, and the example solver after
  \<^verbatim>\<open>setup_function_spaces\<close> and \<^verbatim>\<open>assemble\<close>, in heat and in stress mode.\<close>

definition example_toolkit :: toolkit where
  "example_toolkit = \<lparr>
     tk_vector = (\<lambda>f. [1, 2, 6]),
     tk_errornorm = (\<lambda>f g norm_type. 1/4),
     tk_compute_vertex_values = (\<lambda>f. case f of Split g i \<Rightarrow> [real i, 1] | _ \<Rightarrow> [0, 1]),
     tk_num_sub = (\<lambda>f. 2) \<rparr>"

definition example_heat_solver :: solver where
  "example_heat_solver = snd (assemble (snd (setup_function_spaces example_solver)))"

definition example_stress_solver :: solver where
  "example_stress_solver =
     snd (assemble (snd (setup_function_spaces (example_solver\<lparr>mode := ''stress''\<rparr>))))"






text \<open>A solver in heat mode that holds a discrete solution and the exact solution
  (the classes \<open>Temperature\<close> and \<open>Heatflux\<close> of the compiled file).\<close>

definition example_theta_field :: field where
  "example_theta_field = Function_of_vector
     (FunctionSpace (Mesh triangle ''ring0.h5'') (FiniteElement ''Lagrange'' triangle 1)) [1, 2, 6]"

definition example_s_field :: field where
  "example_s_field = Function_of_vector
     (FunctionSpace (Mesh triangle ''ring0.h5'') (VectorElement ''Lagrange'' triangle 1)) [1, 2, 6]"

definition example_errors_solver :: solver where
  "example_errors_solver = (snd (setup_function_spaces example_solver))\<lparr>
     sol := (\<lambda>v. None)(K_theta := Some example_theta_field, K_s := Some example_s_field),
     esol := (\<lambda>v. None)(K_theta := Some (CompiledExpression ''esols/1.cpp'' ''Temperature'' 2),
                           K_s := Some (CompiledExpression ''esols/1.cpp'' ''Heatflux'' 2)) \<rparr>"

text \<open>A toolkit in which the discrete solution is the interpolation of the exact
  solution: the L2 distance between components of interpolations is 0, any other L2
  distance is 1.\<close>

fun is_interpolant_component :: "field \<Rightarrow> bool" where
  "is_interpolant_component (Split (Interpolate f V) i) = True"
| "is_interpolant_component f = False"

definition example_nodal_toolkit :: toolkit where
  "example_nodal_toolkit = \<lparr>
     tk_vector = (\<lambda>f. [1, 2, 6]),
     tk_errornorm = (\<lambda>f g norm_type. if is_interpolant_component f then 0 else 1),
     tk_compute_vertex_values = (\<lambda>f. [0, 1]),
     tk_num_sub = (\<lambda>f. 2) \<rparr>"

section \<open>Properties\<close>

lemma upt_3: "[0..<3] = [0, 1, 2]"
  by (simp add: upt_rec)

subsection \<open>The synthetic three-dimensional tensor\<close>

text \<open>
  Claim C2. For every 2x2 tensor \<open>B\<close>, \<open>gen3dTracefreeTensor B\<close> has three rows of three
  entries; its upper-left 2x2 block is \<open>B\<close>; its entries (0,2), (1,2), (2,0) and (2,1)
  are zero; its (2,2) entry is \<open>- (B[0,0] + B[1,1])\<close>, so that its trace is zero. The
  entries are taken in any commutative group, which covers numbers and scalar
  expressions with their derivatives.
\<close>

theorem gen3dTracefreeTensor_shape_block_trace:
  fixes B :: "'a::ab_group_add list list"
  shows "map length (gen3dTracefreeTensor B) = [3, 3, 3]
    \<and> gen3dTracefreeTensor B ! 0 ! 0 = B ! 0 ! 0
    \<and> gen3dTracefreeTensor B ! 0 ! 1 = B ! 0 ! 1
    \<and> gen3dTracefreeTensor B ! 1 ! 0 = B ! 1 ! 0
    \<and> gen3dTracefreeTensor B ! 1 ! 1 = B ! 1 ! 1
    \<and> gen3dTracefreeTensor B ! 0 ! 2 = 0
    \<and> gen3dTracefreeTensor B ! 1 ! 2 = 0
    \<and> gen3dTracefreeTensor B ! 2 ! 0 = 0
    \<and> gen3dTracefreeTensor B ! 2 ! 1 = 0
    \<and> gen3dTracefreeTensor B ! 2 ! 2 = - (B ! 0 ! 0 + B ! 1 ! 1)
    \<and> gen3dTracefreeTensor B ! 0 ! 0 + gen3dTracefreeTensor B ! 1 ! 1
        + gen3dTracefreeTensor B ! 2 ! 2 = 0"
  by (simp add: gen3dTracefreeTensor_def)

subsection \<open>The hardcoded expansion of the deviator product\<close>

text \<open>
  Claim C9. For all symmetric 2x2 tensor fields \<open>sigma\<close> and \<open>psi\<close> (equal off-diagonal
  components, hence equal derivatives of them), the expression returned when
  \<^verbatim>\<open>hardcoded\<close> is true equals the compositional expression
  \<^verbatim>\<open>inner(dev3(grad3dOf2(gen3dTracefreeTensor(sigma))), grad3dOf2(gen3dTracefreeTensor(psi)))\<close>
  returned when it is false.
\<close>

theorem innerOfDevOfGrad2AndGrad2_hardcoded_eq_compositional:
  "innerOfDevOfGrad2AndGrad2_hardcoded [[s00, s01], [s01, s11]] [[p00, p01], [p01, p11]]
   = innerOfDevOfGrad2AndGrad2_compositional [[s00, s01], [s01, s11]] [[p00, p01], [p01, p11]]"
  unfolding innerOfDevOfGrad2AndGrad2_hardcoded_def innerOfDevOfGrad2AndGrad2_compositional_def
  by (simp add: inner3_def inner2_def inner1_def dev3_def sym3_def Identity_def grad3dOf2_def
      gen3dTracefreeTensor_def upt_3 Let_def dx_def grad_scalar_def zero_jet_def minus_jet_def
      uminus_jet_def field_simps)

subsection \<open>Function spaces\<close>

lemma for_vars_setup_var:
  "for_vars setup_var vars s0 = (Returned,
     s0\<lparr>elems := (\<lambda>v. Some (case v of
            K_theta \<Rightarrow> FiniteElement (shape (p_elements (params s0) K_theta)) (cell s0) (degree (p_elements (params s0) K_theta))
          | K_s \<Rightarrow> VectorElement (shape (p_elements (params s0) K_s)) (cell s0) (degree (p_elements (params s0) K_s))
          | K_p \<Rightarrow> FiniteElement (shape (p_elements (params s0) K_p)) (cell s0) (degree (p_elements (params s0) K_p))
          | K_u \<Rightarrow> VectorElement (shape (p_elements (params s0) K_u)) (cell s0) (degree (p_elements (params s0) K_u))
          | K_sigma \<Rightarrow> TensorElement (shape (p_elements (params s0) K_sigma)) (cell s0) (degree (p_elements (params s0) K_sigma)) True)),
        fspaces := (\<lambda>v. Some (FunctionSpace (mesh s0) (case v of
            K_theta \<Rightarrow> FiniteElement (shape (p_elements (params s0) K_theta)) (cell s0) (degree (p_elements (params s0) K_theta))
          | K_s \<Rightarrow> VectorElement (shape (p_elements (params s0) K_s)) (cell s0) (degree (p_elements (params s0) K_s))
          | K_p \<Rightarrow> FiniteElement (shape (p_elements (params s0) K_p)) (cell s0) (degree (p_elements (params s0) K_p))
          | K_u \<Rightarrow> VectorElement (shape (p_elements (params s0) K_u)) (cell s0) (degree (p_elements (params s0) K_u))
          | K_sigma \<Rightarrow> TensorElement (shape (p_elements (params s0) K_sigma)) (cell s0) (degree (p_elements (params s0) K_sigma)) True)))\<rparr>)"
  apply (simp add: vars_def setup_var_def var_ranks_def Let_def)
  apply (rule solver.equality; simp add: fun_eq_iff split: var.splits)
  done


subsection \<open>The check of the boundary conditions\<close>

lemma check_edges_Returned:
  "check_edges ks ids = Returned \<longleftrightarrow> (\<forall>e\<in>set ids. e = 0 \<or> int e \<in> set ks)"
  by (induction ids) auto

lemma check_edges_Raised:
  "(\<exists>x. check_edges ks ids = Raised x) \<longleftrightarrow> (\<exists>e\<in>set ids. e \<noteq> 0 \<and> int e \<notin> set ks)"
  using check_edges_Returned [of ks ids] by (cases "check_edges ks ids") auto

text \<open>
  Claim C8. \<open>check_bcs\<close> raises if and only if some entry of the boundary array is
  neither 0 nor a key of \<open>bcs\<close>; raising or not, it leaves the solver as it was. When
  there is such an entry, \<open>assemble\<close> (either revision) raises and leaves the solver as
  it was, so no form has been built.
\<close>

theorem check_bcs_raises_iff_unprescribed_tag:
  "((\<exists>x. fst (check_bcs s0) = Raised x)
      \<longleftrightarrow> (\<exists>edge_id\<in>set (boundaries s0). edge_id \<noteq> 0 \<and> int edge_id \<notin> fst ` set (bcs s0)))
   \<and> snd (check_bcs s0) = s0
   \<and> ((\<exists>edge_id\<in>set (boundaries s0). edge_id \<noteq> 0 \<and> int edge_id \<notin> fst ` set (bcs s0))
        \<longrightarrow> (\<exists>x. assemble s0 = (Raised x, s0)) \<and> (\<exists>x. assemble_src to s0 = (Raised x, s0)))"
proof -
  have raised: "(\<exists>x. fst (check_bcs s0) = Raised x)
      \<longleftrightarrow> (\<exists>edge_id\<in>set (boundaries s0). edge_id \<noteq> 0 \<and> int edge_id \<notin> fst ` set (bcs s0))"
    using check_edges_Raised [of "map fst (bcs s0)" "boundaries s0"]
    by (simp add: check_bcs_def)
  have unchanged: "snd (check_bcs s0) = s0"
    by (simp add: check_bcs_def)
  have "\<exists>x. assemble s0 = (Raised x, s0)" "\<exists>x. assemble_src to s0 = (Raised x, s0)"
    if "\<exists>x. fst (check_bcs s0) = Raised x"
  proof -
    from that obtain x where "fst (check_bcs s0) = Raised x" ..
    with unchanged have c: "check_bcs s0 = (Raised x, s0)"
      by (simp add: prod_eq_iff)
    show "\<exists>x. assemble s0 = (Raised x, s0)" by (simp add: assemble_def c)
    show "\<exists>x. assemble_src to s0 = (Raised x, s0)" by (simp add: assemble_src_def c)
  qed
  with raised unchanged show ?thesis by blast
qed

text \<open>The boundary tag 7 has no boundary condition: the check raises, \<open>assemble\<close>
  raises, and \<open>form_a\<close> is still \<open>None\<close>.\<close>

theorem check_bcs_raises_witness:
  "(\<exists>x. fst (check_bcs (example_solver\<lparr>boundaries := [0, 3000, 7]\<rparr>)) = Raised x)
   \<and> (\<exists>x. assemble (example_solver\<lparr>boundaries := [0, 3000, 7]\<rparr>)
          = (Raised x, example_solver\<lparr>boundaries := [0, 3000, 7]\<rparr>))
   \<and> form_a (snd (assemble (example_solver\<lparr>boundaries := [0, 3000, 7]\<rparr>))) = None"
proof -
  have "\<exists>edge_id\<in>set (boundaries (example_solver\<lparr>boundaries := [0, 3000, 7]\<rparr>)).
     edge_id \<noteq> 0 \<and> int edge_id \<notin> fst ` set (bcs (example_solver\<lparr>boundaries := [0, 3000, 7]\<rparr>))"
    by (simp add: example_solver_def init_def init_with_folder_def example_params_def)
  with check_bcs_raises_iff_unprescribed_tag [of "example_solver\<lparr>boundaries := [0, 3000, 7]\<rparr>" to_closures]
  have "(\<exists>x. fst (check_bcs (example_solver\<lparr>boundaries := [0, 3000, 7]\<rparr>)) = Raised x)"
     and a: "(\<exists>x. assemble (example_solver\<lparr>boundaries := [0, 3000, 7]\<rparr>)
          = (Raised x, example_solver\<lparr>boundaries := [0, 3000, 7]\<rparr>))"
    by blast+
  moreover from a have "form_a (snd (assemble (example_solver\<lparr>boundaries := [0, 3000, 7]\<rparr>))) = None"
    by (auto simp: example_solver_def init_def init_with_folder_def)
  ultimately show ?thesis by blast
qed

subsection \<open>The linear solve and the mean of the pressure\<close>

lemma split_Solution:
  "ufl_element_of w = MixedElement es \<Longrightarrow>
   split (Solution a L w d sp) = Some (map (Split (Solution a L w d sp)) [0..<length es])"
  by (simp add: split_def)

lemma solve_heat:
  assumes "mode s0 = ''heat''" "mxd_fspaces s0 K_heat = Some w"
    "ufl_element_of w = MixedElement [e1, e2]" "form_a s0 = Some a" "form_b s0 = Some L"
  shows "solve tk s0 = (Returned, s0\<lparr>sol := (sol s0)
     (K_theta := Some (Split (Solution a L w [] [(''linear_solver'', ''mumps'')]) 0),
      K_s := Some (Split (Solution a L w [] [(''linear_solver'', ''mumps'')]) 1))\<rparr>)"
  using assms by (simp add: solve_def split_Solution Let_def)

lemma solve_src_heat:
  assumes "mode s0 = ''heat''" "mxd_fspaces s0 K_heat = Some w"
    "ufl_element_of w = MixedElement [e1, e2]" "form_a s0 = Some a" "form_b s0 = Some L"
  shows "solve_src tk s0 = (Returned, s0\<lparr>sol := (sol s0)
     (K_theta := Some (Split (Solution a L w [] [(''linear_solver'', ''mumps'')]) 0),
      K_s := Some (Split (Solution a L w [] [(''linear_solver'', ''mumps'')]) 1))\<rparr>)"
  using assms by (simp add: solve_src_def split_Solution Let_def)

lemma solve_stress:
  assumes "mode s0 = ''stress''" "mxd_fspaces s0 K_stress = Some w"
    "ufl_element_of w = MixedElement [e1, e2, e3]" "form_a s0 = Some a" "form_b s0 = Some L"
    "fspaces s0 K_p = Some V"
  shows "solve tk s0 = (Returned, s0\<lparr>sol := (sol s0)
     (K_p := Some (zero_mean_pressure tk V
                (Interpolate (Split (Solution a L w [] [(''linear_solver'', ''direct'')]) 0) V)
                (calc_sf_mean tk (Interpolate (Split (Solution a L w [] [(''linear_solver'', ''direct'')]) 0) V))),
      K_u := Some (Split (Solution a L w [] [(''linear_solver'', ''direct'')]) 1),
      K_sigma := Some (Split (Solution a L w [] [(''linear_solver'', ''direct'')]) 2))\<rparr>)"
  using assms by (simp add: solve_def split_Solution Let_def numeral_3_eq_3 numeral_2_eq_2 fun_upd_twist)

lemma solve_src_stress:
  assumes "mode s0 = ''stress''" "mxd_fspaces s0 K_stress = Some w"
    "ufl_element_of w = MixedElement [e1, e2, e3]" "form_a s0 = Some a" "form_b s0 = Some L"
    "fspaces s0 K_p = Some V"
    "tk_vector tk (Interpolate (Split (Solution a L w [] [(''linear_solver'', ''mumps'')]) 0) V) \<noteq> []"
  shows "solve_src tk s0 = (Returned, s0\<lparr>sol := (sol s0)
     (K_p := Some (zero_mean_pressure tk V
                (Interpolate (Split (Solution a L w [] [(''linear_solver'', ''mumps'')]) 0) V)
                (calc_sf_mean tk (Interpolate (Split (Solution a L w [] [(''linear_solver'', ''mumps'')]) 0) V))),
      K_u := Some (Split (Solution a L w [] [(''linear_solver'', ''mumps'')]) 1),
      K_sigma := Some (Split (Solution a L w [] [(''linear_solver'', ''mumps'')]) 2))\<rparr>)"
  using assms by (simp add: solve_src_def split_Solution Let_def numeral_3_eq_3 numeral_2_eq_2 fun_upd_twist
      calc_sf_mean_src_def calc_sf_mean_def)

lemma sum_list_shift:
  fixes v :: "real list"
  shows "sum_list (map (\<lambda>x. x - c) v) = sum_list v - real (length v) * c"
  by (induction v) (simp_all add: algebra_simps)

lemma mean_of_shifted:
  fixes v :: "real list"
  assumes "v \<noteq> []"
  shows "sum_list (map (\<lambda>x. x - sum_list v / real (length v)) v) / real (length v) = 0"
  using assms by (simp add: sum_list_shift)

lemma map2_minus_const:
  "map2 (-) v (map (\<lambda>x. m) v) = map (\<lambda>x. x - m) (v :: real list)"
  by (induction v) simp_all

lemma zero_mean_pressure_mean:
  assumes "vector tk p_i \<noteq> []"
  shows "calc_sf_mean tk (zero_mean_pressure tk V p_i (calc_sf_mean tk p_i)) = Some 0"
    and "calc_sf_mean_src tk (zero_mean_pressure tk V p_i (calc_sf_mean tk p_i)) = Inr 0"
  using assms mean_of_shifted [of "vector tk p_i"]
  by (simp_all add: calc_sf_mean_def calc_sf_mean_src_def zero_mean_pressure_def Let_def map2_minus_const)

lemma setup_function_spaces_mixed:
  "\<exists>s1. setup_function_spaces s0 = (Returned, s1)
     \<and> s1 = s0\<lparr>elems := elems s1, fspaces := fspaces s1, mxd_elems := mxd_elems s1,
              mxd_fspaces := mxd_fspaces s1\<rparr>
     \<and> fspaces s1 K_p = Some (FunctionSpace (mesh s0)
         (FiniteElement (shape (p_elements (params s0) K_p)) (cell s0) (degree (p_elements (params s0) K_p))))
     \<and> mxd_fspaces s1 K_heat = Some (FunctionSpace (mesh s0) (MixedElement
        [FiniteElement (shape (p_elements (params s0) K_theta)) (cell s0) (degree (p_elements (params s0) K_theta)),
         VectorElement (shape (p_elements (params s0) K_s)) (cell s0) (degree (p_elements (params s0) K_s))]))
     \<and> mxd_fspaces s1 K_stress = Some (FunctionSpace (mesh s0) (MixedElement
        [FiniteElement (shape (p_elements (params s0) K_p)) (cell s0) (degree (p_elements (params s0) K_p)),
         VectorElement (shape (p_elements (params s0) K_u)) (cell s0) (degree (p_elements (params s0) K_u)),
         TensorElement (shape (p_elements (params s0) K_sigma)) (cell s0) (degree (p_elements (params s0) K_sigma)) True]))"
  by (simp add: setup_function_spaces_def for_vars_setup_var setup_mixed_def Let_def)

lemma example_heat_solver_ready:
  "mode example_heat_solver = ''heat''
   \<and> (\<exists>a. form_a example_heat_solver = Some a) \<and> (\<exists>L. form_b example_heat_solver = Some L)
   \<and> (\<exists>w e1 e2. mxd_fspaces example_heat_solver K_heat = Some w \<and> ufl_element_of w = MixedElement [e1, e2])
   \<and> sol example_heat_solver = (\<lambda>v. None)"
proof -
  obtain s1 where s1: "setup_function_spaces example_solver = (Returned, s1)"
    and frame: "s1 = example_solver\<lparr>elems := elems s1, fspaces := fspaces s1, mxd_elems := mxd_elems s1,
              mxd_fspaces := mxd_fspaces s1\<rparr>"
    and w: "\<exists>e1 e2. mxd_fspaces s1 K_heat = Some (FunctionSpace (mesh example_solver) (MixedElement [e1, e2]))"
    using setup_function_spaces_mixed [of example_solver] by blast
  from w obtain e1 e2 where w': "mxd_fspaces s1 K_heat = Some (FunctionSpace (mesh example_solver) (MixedElement [e1, e2]))"
    by blast
  have m: "mode s1 = ''heat''" "boundaries s1 = [0, 3000, 3100, 0]" "tau s1 = 1/10" "xi_tilde s1 = 2"
     "map fst (bcs s1) = [3000, 3100]" "sol s1 = (\<lambda>v. None)"
    by (subst frame, simp add: example_solver_def init_def init_with_folder_def example_params_def example_mesh_def)+
  show ?thesis
    unfolding example_heat_solver_def s1
    by (simp add: assemble_def check_bcs_def m w' Let_def)
qed

lemma example_stress_solver_ready:
  "mode example_stress_solver = ''stress''
   \<and> (\<exists>a. form_a example_stress_solver = Some a) \<and> (\<exists>L. form_b example_stress_solver = Some L)
   \<and> (\<exists>w e1 e2 e3. mxd_fspaces example_stress_solver K_stress = Some w
         \<and> ufl_element_of w = MixedElement [e1, e2, e3])
   \<and> (\<exists>V. fspaces example_stress_solver K_p = Some V)
   \<and> sol example_stress_solver = (\<lambda>v. None)"
proof -
  obtain s1 where s1: "setup_function_spaces (example_solver\<lparr>mode := ''stress''\<rparr>) = (Returned, s1)"
    and frame: "s1 = example_solver\<lparr>mode := ''stress'', elems := elems s1, fspaces := fspaces s1,
              mxd_elems := mxd_elems s1, mxd_fspaces := mxd_fspaces s1\<rparr>"
    and w: "\<exists>e1 e2 e3. mxd_fspaces s1 K_stress
        = Some (FunctionSpace (mesh (example_solver\<lparr>mode := ''stress''\<rparr>)) (MixedElement [e1, e2, e3]))"
    and V: "\<exists>V. fspaces s1 K_p = Some V"
    using setup_function_spaces_mixed [of "example_solver\<lparr>mode := ''stress''\<rparr>"] by auto
  from w obtain e1 e2 e3 where w': "mxd_fspaces s1 K_stress
        = Some (FunctionSpace (mesh (example_solver\<lparr>mode := ''stress''\<rparr>)) (MixedElement [e1, e2, e3]))"
    by blast
  have m: "mode s1 = ''stress''" "boundaries s1 = [0, 3000, 3100, 0]" "tau s1 = 1/10" "xi_tilde s1 = 2"
     "map fst (bcs s1) = [3000, 3100]" "sol s1 = (\<lambda>v. None)" "use_coeffs s1"
    by (subst frame, simp add: example_solver_def init_def init_with_folder_def example_params_def example_mesh_def)+
  show ?thesis
    unfolding example_stress_solver_def s1
    using V by (simp add: assemble_def check_bcs_def m w' Let_def)
qed

text \<open>
  Claim C6. \<open>solve\<close> (either revision) hands the toolkit the system \<open>form_a == form_b\<close>
  on the mixed space of the mode with the empty list of Dirichlet conditions and the
  linear solver \<open>mumps\<close> or \<open>direct\<close>, and changes nothing of the solver but \<open>sol\<close>. In
  heat mode \<open>sol[theta]\<close> and \<open>sol[s]\<close> become the two sub-functions of the solution and
  \<open>sol[p]\<close>, \<open>sol[u]\<close>, \<open>sol[sigma]\<close> keep their values; in stress mode \<open>sol[u]\<close> and
  \<open>sol[sigma]\<close> become sub-functions of the solution, \<open>sol[p]\<close> the interpolated first
  sub-function minus its mean, and \<open>sol[theta]\<close>, \<open>sol[s]\<close> keep their values. The
  hypotheses say that \<open>setup_function_spaces\<close> and \<open>assemble\<close> have run: the forms and
  the mixed space of the mode are there.
\<close>

theorem solve_assigns_only_mode_entries:
  assumes "form_a s0 = Some a" and "form_b s0 = Some L"
  shows
    "(mode s0 = ''heat'' \<and> mxd_fspaces s0 K_heat = Some w \<and> ufl_element_of w = MixedElement [e1, e2]
       \<longrightarrow> (\<exists>linear_solver\<in>{''mumps'', ''direct''}.
             let S = Solution a L w [] [(''linear_solver'', linear_solver)]; s1 = snd (solve tk s0)
             in solve tk s0 = (Returned, s0\<lparr>sol := sol s1\<rparr>)
              \<and> sol s1 K_theta = Some (Split S 0) \<and> sol s1 K_s = Some (Split S 1)
              \<and> sol s1 K_p = sol s0 K_p \<and> sol s1 K_u = sol s0 K_u \<and> sol s1 K_sigma = sol s0 K_sigma)
         \<and> (\<exists>linear_solver\<in>{''mumps'', ''direct''}.
             let S = Solution a L w [] [(''linear_solver'', linear_solver)]; s1 = snd (solve_src tk s0)
             in solve_src tk s0 = (Returned, s0\<lparr>sol := sol s1\<rparr>)
              \<and> sol s1 K_theta = Some (Split S 0) \<and> sol s1 K_s = Some (Split S 1)
              \<and> sol s1 K_p = sol s0 K_p \<and> sol s1 K_u = sol s0 K_u \<and> sol s1 K_sigma = sol s0 K_sigma))
   \<and> (mode s0 = ''stress'' \<and> mxd_fspaces s0 K_stress = Some w
        \<and> ufl_element_of w = MixedElement [e1, e2, e3] \<and> fspaces s0 K_p = Some V
       \<longrightarrow> (\<exists>linear_solver\<in>{''mumps'', ''direct''}.
             let S = Solution a L w [] [(''linear_solver'', linear_solver)]; s1 = snd (solve tk s0)
             in solve tk s0 = (Returned, s0\<lparr>sol := sol s1\<rparr>)
              \<and> sol s1 K_p = Some (zero_mean_pressure tk V (Interpolate (Split S 0) V)
                                     (calc_sf_mean tk (Interpolate (Split S 0) V)))
              \<and> sol s1 K_u = Some (Split S 1) \<and> sol s1 K_sigma = Some (Split S 2)
              \<and> sol s1 K_theta = sol s0 K_theta \<and> sol s1 K_s = sol s0 K_s)
         \<and> (\<exists>linear_solver\<in>{''mumps'', ''direct''}.
             let S = Solution a L w [] [(''linear_solver'', linear_solver)]; s1 = snd (solve_src tk s0)
             in tk_vector tk (Interpolate (Split S 0) V) \<noteq> []
              \<longrightarrow> solve_src tk s0 = (Returned, s0\<lparr>sol := sol s1\<rparr>)
              \<and> sol s1 K_p = Some (zero_mean_pressure tk V (Interpolate (Split S 0) V)
                                     (calc_sf_mean tk (Interpolate (Split S 0) V)))
              \<and> sol s1 K_u = Some (Split S 1) \<and> sol s1 K_sigma = Some (Split S 2)
              \<and> sol s1 K_theta = sol s0 K_theta \<and> sol s1 K_s = sol s0 K_s))"
proof (intro conjI impI; elim conjE)
  assume h: "mode s0 = ''heat''" "mxd_fspaces s0 K_heat = Some w" "ufl_element_of w = MixedElement [e1, e2]"
  show "\<exists>linear_solver\<in>{''mumps'', ''direct''}.
             let S = Solution a L w [] [(''linear_solver'', linear_solver)]; s1 = snd (solve tk s0)
             in solve tk s0 = (Returned, s0\<lparr>sol := sol s1\<rparr>)
              \<and> sol s1 K_theta = Some (Split S 0) \<and> sol s1 K_s = Some (Split S 1)
              \<and> sol s1 K_p = sol s0 K_p \<and> sol s1 K_u = sol s0 K_u \<and> sol s1 K_sigma = sol s0 K_sigma"
    by (rule bexI [of _ "''mumps''"]) (simp_all add: solve_heat [OF h assms] Let_def)
  show "\<exists>linear_solver\<in>{''mumps'', ''direct''}.
             let S = Solution a L w [] [(''linear_solver'', linear_solver)]; s1 = snd (solve_src tk s0)
             in solve_src tk s0 = (Returned, s0\<lparr>sol := sol s1\<rparr>)
              \<and> sol s1 K_theta = Some (Split S 0) \<and> sol s1 K_s = Some (Split S 1)
              \<and> sol s1 K_p = sol s0 K_p \<and> sol s1 K_u = sol s0 K_u \<and> sol s1 K_sigma = sol s0 K_sigma"
    by (rule bexI [of _ "''mumps''"]) (simp_all add: solve_src_heat [OF h assms] Let_def)
next
  assume h: "mode s0 = ''stress''" "mxd_fspaces s0 K_stress = Some w"
    "ufl_element_of w = MixedElement [e1, e2, e3]"
    and V: "fspaces s0 K_p = Some V"
  show "\<exists>linear_solver\<in>{''mumps'', ''direct''}.
             let S = Solution a L w [] [(''linear_solver'', linear_solver)]; s1 = snd (solve tk s0)
             in solve tk s0 = (Returned, s0\<lparr>sol := sol s1\<rparr>)
              \<and> sol s1 K_p = Some (zero_mean_pressure tk V (Interpolate (Split S 0) V)
                                     (calc_sf_mean tk (Interpolate (Split S 0) V)))
              \<and> sol s1 K_u = Some (Split S 1) \<and> sol s1 K_sigma = Some (Split S 2)
              \<and> sol s1 K_theta = sol s0 K_theta \<and> sol s1 K_s = sol s0 K_s"
    by (rule bexI [of _ "''direct''"]) (simp_all add: solve_stress [OF h assms V] Let_def)
  show "\<exists>linear_solver\<in>{''mumps'', ''direct''}.
             let S = Solution a L w [] [(''linear_solver'', linear_solver)]; s1 = snd (solve_src tk s0)
             in tk_vector tk (Interpolate (Split S 0) V) \<noteq> []
              \<longrightarrow> solve_src tk s0 = (Returned, s0\<lparr>sol := sol s1\<rparr>)
              \<and> sol s1 K_p = Some (zero_mean_pressure tk V (Interpolate (Split S 0) V)
                                     (calc_sf_mean tk (Interpolate (Split S 0) V)))
              \<and> sol s1 K_u = Some (Split S 1) \<and> sol s1 K_sigma = Some (Split S 2)
              \<and> sol s1 K_theta = sol s0 K_theta \<and> sol s1 K_s = sol s0 K_s"
    by (rule bexI [of _ "''mumps''"]) (simp_all add: solve_src_stress [OF h assms V] Let_def)
qed

text \<open>On the example solver after \<open>assemble\<close>: in heat mode \<open>theta\<close> and \<open>s\<close> are set and
  the others are still \<open>None\<close>; in stress mode it is the other way round.\<close>

theorem solve_assigns_only_mode_entries_witness:
  "sol (snd (solve example_toolkit example_heat_solver)) K_theta \<noteq> None
   \<and> sol (snd (solve example_toolkit example_heat_solver)) K_s \<noteq> None
   \<and> sol (snd (solve example_toolkit example_heat_solver)) K_p = None
   \<and> sol (snd (solve example_toolkit example_heat_solver)) K_u = None
   \<and> sol (snd (solve example_toolkit example_heat_solver)) K_sigma = None
   \<and> sol (snd (solve example_toolkit example_stress_solver)) K_p \<noteq> None
   \<and> sol (snd (solve example_toolkit example_stress_solver)) K_u \<noteq> None
   \<and> sol (snd (solve example_toolkit example_stress_solver)) K_sigma \<noteq> None
   \<and> sol (snd (solve example_toolkit example_stress_solver)) K_theta = None
   \<and> sol (snd (solve example_toolkit example_stress_solver)) K_s = None"
proof -
  obtain a L w e1 e2 where h: "form_a example_heat_solver = Some a" "form_b example_heat_solver = Some L"
    "mode example_heat_solver = ''heat''" "mxd_fspaces example_heat_solver K_heat = Some w"
    "ufl_element_of w = MixedElement [e1, e2]" and h0: "sol example_heat_solver = (\<lambda>v. None)"
    using example_heat_solver_ready by blast
  obtain a' L' w' e1' e2' e3' V where t: "form_a example_stress_solver = Some a'"
    "form_b example_stress_solver = Some L'"
    "mode example_stress_solver = ''stress''" "mxd_fspaces example_stress_solver K_stress = Some w'"
    "ufl_element_of w' = MixedElement [e1', e2', e3']" "fspaces example_stress_solver K_p = Some V"
    and t0: "sol example_stress_solver = (\<lambda>v. None)"
    using example_stress_solver_ready by blast
  from solve_assigns_only_mode_entries [OF h(1,2), of w e1 e2 example_toolkit] h(3-5) h0
  have "sol (snd (solve example_toolkit example_heat_solver)) K_theta \<noteq> None
   \<and> sol (snd (solve example_toolkit example_heat_solver)) K_s \<noteq> None
   \<and> sol (snd (solve example_toolkit example_heat_solver)) K_p = None
   \<and> sol (snd (solve example_toolkit example_heat_solver)) K_u = None
   \<and> sol (snd (solve example_toolkit example_heat_solver)) K_sigma = None"
    by (auto simp: Let_def)
  moreover from solve_assigns_only_mode_entries [OF t(1,2), of w' e1' e2' example_toolkit e3' V] t(3-6) t0
  have "sol (snd (solve example_toolkit example_stress_solver)) K_p \<noteq> None
   \<and> sol (snd (solve example_toolkit example_stress_solver)) K_u \<noteq> None
   \<and> sol (snd (solve example_toolkit example_stress_solver)) K_sigma \<noteq> None
   \<and> sol (snd (solve example_toolkit example_stress_solver)) K_theta = None
   \<and> sol (snd (solve example_toolkit example_stress_solver)) K_s = None"
    by (auto simp: Let_def)
  ultimately show ?thesis by blast
qed

text \<open>
  Claim C10. After \<open>solve\<close> in stress mode (either revision; the forms and spaces are
  there, and functions have at least one coefficient) the stored pressure has mean
  zero as \<open>calc_sf_mean\<close> computes it. For every coefficient vector \<open>v\<close> with at least
  one entry, the mean is the sum of the entries divided by their number, and
  subtracting it from every entry gives a vector of mean exactly zero.
\<close>

theorem solve_pressure_zero_mean:
  assumes "mode s0 = ''stress''" and "mxd_fspaces s0 K_stress = Some w"
    and "ufl_element_of w = MixedElement [e1, e2, e3]"
    and "form_a s0 = Some a" and "form_b s0 = Some L" and "fspaces s0 K_p = Some V"
    and nonempty: "\<forall>f. tk_vector tk f \<noteq> []"
  shows "(\<exists>p. fst (solve tk s0) = Returned \<and> sol (snd (solve tk s0)) K_p = Some p
            \<and> calc_sf_mean tk p = Some 0)
     \<and> (\<exists>p. fst (solve_src tk s0) = Returned \<and> sol (snd (solve_src tk s0)) K_p = Some p
            \<and> calc_sf_mean_src tk p = Inr 0)
     \<and> (\<forall>v. v \<noteq> [] \<longrightarrow>
          calc_sf_mean tk (Function_of_vector V v) = Some (sum_list v / real (length v))
        \<and> calc_sf_mean tk (Function_of_vector V (map (\<lambda>x. x - sum_list v / real (length v)) v)) = Some 0
        \<and> calc_sf_mean_src tk (Function_of_vector V v) = Inr (sum_list v / real (length v))
        \<and> calc_sf_mean_src tk (Function_of_vector V (map (\<lambda>x. x - sum_list v / real (length v)) v)) = Inr 0)"
proof (intro conjI allI impI)
  have ne: "vector tk (Interpolate f V) \<noteq> []" for f
    using nonempty by simp
  show "\<exists>p. fst (solve tk s0) = Returned \<and> sol (snd (solve tk s0)) K_p = Some p
            \<and> calc_sf_mean tk p = Some 0"
    by (simp add: solve_stress [OF assms(1-6)] zero_mean_pressure_mean(1) [OF ne])
  have ne': "tk_vector tk (Interpolate (Split (Solution a L w [] [(''linear_solver'', ''mumps'')]) 0) V) \<noteq> []"
    using nonempty by simp
  show "\<exists>p. fst (solve_src tk s0) = Returned \<and> sol (snd (solve_src tk s0)) K_p = Some p
            \<and> calc_sf_mean_src tk p = Inr 0"
    by (simp add: solve_src_stress [OF assms(1-6) ne'] zero_mean_pressure_mean(2) [OF ne])
next
  fix v :: "real list" assume "v \<noteq> []"
  then show "calc_sf_mean tk (Function_of_vector V v) = Some (sum_list v / real (length v))"
    "calc_sf_mean tk (Function_of_vector V (map (\<lambda>x. x - sum_list v / real (length v)) v)) = Some 0"
    "calc_sf_mean_src tk (Function_of_vector V v) = Inr (sum_list v / real (length v))"
    "calc_sf_mean_src tk (Function_of_vector V (map (\<lambda>x. x - sum_list v / real (length v)) v)) = Inr 0"
    using mean_of_shifted [of v] by (simp_all add: calc_sf_mean_def calc_sf_mean_src_def)
qed

text \<open>On the example solver in stress mode, and on the vector \<open>[1, 2, 6]\<close> with mean 3.\<close>

theorem solve_pressure_zero_mean_witness:
  "(\<exists>p. sol (snd (solve example_toolkit example_stress_solver)) K_p = Some p
        \<and> calc_sf_mean example_toolkit p = Some 0)
   \<and> calc_sf_mean example_toolkit (Function_of_vector (TensorFunctionSpace (Mesh triangle ''m'') ''Lagrange'' 1) [1, 2, 6]) = Some 3
   \<and> calc_sf_mean example_toolkit (Function_of_vector (TensorFunctionSpace (Mesh triangle ''m'') ''Lagrange'' 1) [-2, -1, 3]) = Some 0"
proof -
  obtain a' L' w' e1' e2' e3' V where t: 
    "mode example_stress_solver = ''stress''" "mxd_fspaces example_stress_solver K_stress = Some w'"
    "ufl_element_of w' = MixedElement [e1', e2', e3']"
    "form_a example_stress_solver = Some a'" "form_b example_stress_solver = Some L'"
    "fspaces example_stress_solver K_p = Some V"
    using example_stress_solver_ready by blast
  have ne: "\<forall>f. tk_vector example_toolkit f \<noteq> []"
    by (simp add: example_toolkit_def)
  from solve_pressure_zero_mean [OF t ne]
  have "\<exists>p. sol (snd (solve example_toolkit example_stress_solver)) K_p = Some p
        \<and> calc_sf_mean example_toolkit p = Some 0"
    by blast
  then show ?thesis
    by (simp add: calc_sf_mean_def)
qed

subsection \<open>The two revisions of the weak forms\<close>

lemma setup_function_spaces_src_mixed:
  "\<exists>s1. setup_function_spaces_src s0 = (Returned, s1)
     \<and> s1 = s0\<lparr>elems := elems s1, fspaces := fspaces s1, mxd_elems := mxd_elems s1,
              mxd_fspaces := mxd_fspaces s1\<rparr>
     \<and> fspaces s1 K_p = Some (FunctionSpace (mesh s0)
         (FiniteElement (shape (p_elements (params s0) K_p)) (cell s0) (degree (p_elements (params s0) K_p))))
     \<and> mxd_fspaces s1 K_heat = Some (FunctionSpace (mesh s0) (MixedElement
        [FiniteElement (shape (p_elements (params s0) K_theta)) (cell s0) (degree (p_elements (params s0) K_theta)),
         VectorElement (shape (p_elements (params s0) K_s)) (cell s0) (degree (p_elements (params s0) K_s))]))
     \<and> mxd_fspaces s1 K_stress = Some (FunctionSpace (mesh s0) (MixedElement
        [FiniteElement (shape (p_elements (params s0) K_p)) (cell s0) (degree (p_elements (params s0) K_p)),
         VectorElement (shape (p_elements (params s0) K_u)) (cell s0) (degree (p_elements (params s0) K_u)),
         TensorElement (shape (p_elements (params s0) K_sigma)) (cell s0) (degree (p_elements (params s0) K_sigma)) True]))"
  by (simp add: setup_function_spaces_src_def for_vars_setup_var setup_mixed_def Let_def)


lemma setup_frame:
  assumes "s1 = s0\<lparr>elems := e, fspaces := f, mxd_elems := me, mxd_fspaces := mf\<rparr>"
  shows "mode s1 = mode s0" "boundaries s1 = boundaries s0" "bcs s1 = bcs s0"
    "tau s1 = tau s0" "xi_tilde s1 = xi_tilde s0" "use_coeffs s1 = use_coeffs s0"
    "use_cip s1 = use_cip s0" "delta_1 s1 = delta_1 s0" "delta_2 s1 = delta_2 s0" "delta_3 s1 = delta_3 s0"
    "form_a s1 = form_a s0" "form_b s1 = form_b s0" "sol s1 = sol s0"
  using assms by simp_all


lemma example_solver_fields:
  "mode example_solver = ''heat''" "boundaries example_solver = [0, 3000, 3100, 0]"
  "map fst (bcs example_solver) = [3000, 3100]" "tau example_solver = 1/10"
  "xi_tilde example_solver = 2" "use_coeffs example_solver" "use_cip example_solver"
  "form_a example_solver = None" "form_b example_solver = None"
  by (simp_all add: example_solver_def init_def init_with_folder_def example_params_def example_mesh_def)





subsection \<open>The interior penalty terms\<close>

text \<open>
  When \<open>assemble\<close> gets as far as the sum of the forms, the integrals of \<open>form_a\<close> over
  interior facets are: with \<open>use_cip\<close>, one integral of the jumps of the gradients,
  scaled by \<open>delta_1 * h_avg^3\<close> for \<open>theta\<close> in heat mode, and by \<open>delta_2 * h_avg^3\<close> for
  \<open>u\<close> and \<open>delta_3 * h_avg\<close> for \<open>p\<close> in stress mode; without \<open>use_cip\<close>, none.
\<close>

lemma assemble_cip_terms:
  assumes "check_edges (map fst (bcs s0)) (boundaries s0) = Returned"
    and "tau s0 \<noteq> 0" and "xi_tilde s0 \<noteq> 0"
  shows "mode s0 = ''heat'' \<Longrightarrow> mxd_fspaces s0 K_heat = Some w \<Longrightarrow>
      fst (assemble s0) = Returned
      \<and> map_option (integrals_on df_dS) (form_a (snd (assemble s0)))
          = Some (if use_cip s0
                  then [(df_dS, w, \<lambda>e. - (delta_1 s0 * h_avg e ^ 3
                          * jump_grad_scalar l_theta e * jump_grad_scalar l_kappa e))]
                  else [])"
    and "mode s0 = ''stress'' \<Longrightarrow> use_coeffs s0 \<Longrightarrow> mxd_fspaces s0 K_stress = Some w \<Longrightarrow>
      fst (assemble s0) = Returned
      \<and> map_option (integrals_on df_dS) (form_a (snd (assemble s0)))
          = Some (if use_cip s0
                  then [(df_dS, w, \<lambda>e.
                            delta_2 s0 * h_avg e ^ 3
                              * dot (jump_grad_vector l_u e) (jump_grad_vector l_v e)
                          - delta_3 s0 * h_avg e
                              * jump_grad_scalar l_p e * jump_grad_scalar l_q e)]
                  else [])"
  using assms
  by (simp_all add: assemble_def check_bcs_def Let_def integrals_on_def heat_a1_coeffs_def
      heat_a1_plain_def heat_a2_def stab_heat_def stress_a1_def stress_a2_def stress_a3_def
      stab_stress_def times_measure_def)

text \<open>
  Claim C3 says that with \<open>stabilization.cip.enable\<close> the stress \<open>form_a\<close> includes the
  penalty terms. In stress mode without \<open>use_coeffs\<close> the forms \<open>a1, a2, a3\<close> are never
  assigned: on the example solver with the penalty enabled, \<open>assemble\<close> raises
  \<open>UnboundLocalError\<close> at the sum \<^verbatim>\<open>a1 + a2 + a3 + stab\<close> (at \<^verbatim>\<open>a3 + a4 + a5 + stab_stress\<close>
  in \<^verbatim>\<open>src/src/solver.py\<close>), and \<open>form_a\<close> is still \<open>None\<close>. The heat branch has
  the \<^verbatim>\<open>else\<close> that the stress branch lacks.
\<close>

theorem assemble_stress_without_coeffs_raises:
  "use_cip (example_solver\<lparr>mode := ''stress'', use_coeffs := False\<rparr>)
   \<and> assemble (snd (setup_function_spaces (example_solver\<lparr>mode := ''stress'', use_coeffs := False\<rparr>)))
      = (Raised (UnboundLocalError ''a1''),
         snd (setup_function_spaces (example_solver\<lparr>mode := ''stress'', use_coeffs := False\<rparr>)))
   \<and> form_a (snd (assemble (snd (setup_function_spaces
         (example_solver\<lparr>mode := ''stress'', use_coeffs := False\<rparr>))))) = None
   \<and> assemble_src to_closures (snd (setup_function_spaces_src
         (example_solver\<lparr>mode := ''stress'', use_coeffs := False\<rparr>)))
      = (Raised (UnboundLocalError ''a3''),
         snd (setup_function_spaces_src (example_solver\<lparr>mode := ''stress'', use_coeffs := False\<rparr>)))"
proof -
  let ?s0 = "example_solver\<lparr>mode := ''stress'', use_coeffs := False\<rparr>"
  obtain s1 ws where s1: "setup_function_spaces ?s0 = (Returned, s1)"
    and f1: "s1 = ?s0\<lparr>elems := elems s1, fspaces := fspaces s1, mxd_elems := mxd_elems s1,
              mxd_fspaces := mxd_fspaces s1\<rparr>"
    and w1: "mxd_fspaces s1 K_stress = Some ws"
    using setup_function_spaces_mixed [of ?s0] by blast
  obtain s2 wh' ws' where s2: "setup_function_spaces_src ?s0 = (Returned, s2)"
    and f2: "s2 = ?s0\<lparr>elems := elems s2, fspaces := fspaces s2, mxd_elems := mxd_elems s2,
              mxd_fspaces := mxd_fspaces s2\<rparr>"
    and w2: "mxd_fspaces s2 K_heat = Some wh'" "mxd_fspaces s2 K_stress = Some ws'"
    using setup_function_spaces_src_mixed [of ?s0] by blast
  note r1 = setup_frame [OF f1] and r2 = setup_frame [OF f2]
  show ?thesis
    unfolding s1 s2 snd_conv
    by (simp add: assemble_def assemble_src_def check_bcs_def r1 r2 example_solver_fields w1 w2 Let_def)
qed

subsection \<open>Writing fields\<close>




lemma remove_symmetry_some:
  assumes "ufl_element fld = Some el"
  shows "\<exists>W. remove_symmetry msh degs fld = Inr W"
  using assms by (induction degs) (simp_all add: Let_def)

lemma write_xdmf_function:
  assumes "ufl_element fld = Some el"
  shows "\<exists>W. write_xdmf name fld s0 = (Returned, s0\<lparr>xdmf_files := xdmf_files s0 @
     [(output_folder s0 @ name @ ''_'' @ time s0 @ ''.xdmf'', W, name, time s0)]\<rparr>)"
  using remove_symmetry_some [OF assms, of "mesh s0" "[0..<5]"]
  by (auto simp: write_xdmf_def Let_def)






subsection \<open>The error norms\<close>

lemma those_map_total:
  assumes "\<forall>x\<in>set xs. f x \<noteq> None"
  shows "\<exists>ys. those (map f xs) = Some ys"
  using assms by (induction xs) auto

lemma np_max_abs_diff_total:
  "a \<noteq> [] \<Longrightarrow> b \<noteq> [] \<Longrightarrow> np_max_abs_diff a b \<noteq> None"
  by (cases a; cases b) (simp_all add: np_max_abs_diff_def)

lemma calc_scalarfield_errors_returns:
  "\<exists>s1. calc_scalarfield_errors tk (Some sl) (Some se) (Some V) nm s0
       = (Inr (Float (tk_errornorm tk se sl ''L2''),
               Float (norm_linf (map2 (-) (vector tk (Interpolate se V))
                                          (vector tk (Interpolate sl V))))), s1)
     \<and> s1 = s0\<lparr>xdmf_files := xdmf_files s1\<rparr>"
proof -
  define n1 where "n1 = ''difference_'' @ nm"
  define n2 where "n2 = nm @ ''_e''"
  have el1: "ufl_element (Project (Difference se sl) V) = Some (ufl_element_of V)"
    and el2: "ufl_element (Interpolate se V) = Some (ufl_element_of V)"
    by simp_all
  from write_xdmf_function [OF el1, of n1 s0] obtain s1 where
    w1: "write_xdmf n1 (Project (Difference se sl) V) s0 = (Returned, s1)"
    and f1: "s1 = s0\<lparr>xdmf_files := xdmf_files s1\<rparr>"
    by auto
  from write_xdmf_function [OF el2, of n2 s1] obtain s2 where
    w2: "write_xdmf n2 (Interpolate se V) s1 = (Returned, s2)"
    and f2: "s2 = s1\<lparr>xdmf_files := xdmf_files s2\<rparr>"
    by auto
  have "s2 = s0\<lparr>xdmf_files := xdmf_files s2\<rparr>"
    by (subst f2, subst f1) simp
  with w1 w2 show ?thesis
    unfolding n1_def n2_def by (simp add: calc_scalarfield_errors_def Let_def)
qed

lemma calc_componentwise_errors_returns:
  assumes "\<forall>f. tk_compute_vertex_values tk f \<noteq> []"
  shows "\<exists>s1 linf. calc_componentwise_errors tensor tk (Some sl) (Some se) (Some V) nm s0
       = (Inr (Float_list (map (\<lambda>i. tk_errornorm tk (Split (Interpolate se V) i)
                                        (Split (Interpolate sl V) i) ''L2'')
                             [0..<tk_num_sub tk (Interpolate se V)]),
               Float_list linf), s1)
     \<and> those (map (\<lambda>i. np_max_abs_diff
                  (tk_compute_vertex_values tk (Split (Interpolate se V) i))
                  (tk_compute_vertex_values tk (Split (Interpolate sl V) i)))
               [0..<tk_num_sub tk (Interpolate se V)]) = Some linf
     \<and> s1 = s0\<lparr>xdmf_files := xdmf_files s1\<rparr>"
proof -
  define n1 where "n1 = ''difference_'' @ nm"
  define n2 where "n2 = nm @ ''_e''"
  define D where "D = (if tensor then Project (Difference (Interpolate se V) (Interpolate sl V)) V
                             else Project (Difference se sl) V)"
  have el1: "ufl_element D = Some (ufl_element_of V)"
    and el2: "ufl_element (Interpolate se V) = Some (ufl_element_of V)"
    by (simp_all add: D_def)
  from write_xdmf_function [OF el1, of n1 s0] obtain s1 where
    w1: "write_xdmf n1 D s0 = (Returned, s1)"
    and f1: "s1 = s0\<lparr>xdmf_files := xdmf_files s1\<rparr>"
    by auto
  from write_xdmf_function [OF el2, of n2 s1] obtain s2 where
    w2: "write_xdmf n2 (Interpolate se V) s1 = (Returned, s2)"
    and f2: "s2 = s1\<lparr>xdmf_files := xdmf_files s2\<rparr>"
    by auto
  have f: "s2 = s0\<lparr>xdmf_files := xdmf_files s2\<rparr>"
    by (subst f2, subst f1) simp
  obtain linf where linf: "those (map (\<lambda>i. np_max_abs_diff
                  (tk_compute_vertex_values tk (Split (Interpolate se V) i))
                  (tk_compute_vertex_values tk (Split (Interpolate sl V) i)))
               [0..<tk_num_sub tk (Interpolate se V)]) = Some linf"
    using those_map_total [of "[0..<tk_num_sub tk (Interpolate se V)]" "\<lambda>i. np_max_abs_diff
                  (tk_compute_vertex_values tk (Split (Interpolate se V) i))
                  (tk_compute_vertex_values tk (Split (Interpolate sl V) i))"]
      np_max_abs_diff_total assms by blast
  show ?thesis
    using w1 w2 linf f unfolding n1_def n2_def D_def
    by (simp add: calc_componentwise_errors_def Let_def)
qed

lemma xdmf_frame:
  assumes "s1 = s0\<lparr>xdmf_files := fs\<rparr>"
  shows "sol s1 = sol s0" "esol s1 = esol s0" "fspaces s1 = fspaces s0" "mode s1 = mode s0"
    "errors_f_l2 s1 = errors_f_l2 s0" "errors_v_linf s1 = errors_v_linf s0"
  using assms by simp_all

lemma calc_errors_heat_returns:
  assumes vv: "\<forall>f. tk_compute_vertex_values tk f \<noteq> []"
    and "sol s0 K_theta = Some sl_theta" "esol s0 K_theta = Some se_theta" "fspaces s0 K_theta = Some V_theta"
    and "sol s0 K_s = Some sl_s" "esol s0 K_s = Some se_s" "fspaces s0 K_s = Some V_s"
  shows "\<exists>s1 linf_s. calc_errors_heat tk s0 = (Returned, s1)
     \<and> mode s1 = mode s0
     \<and> sol s1 = sol s0 \<and> esol s1 = esol s0 \<and> fspaces s1 = fspaces s0
     \<and> errors_f_l2 s1 = (errors_f_l2 s0)
          (K_theta \<mapsto> Some (Float (tk_errornorm tk se_theta sl_theta ''L2'')),
           K_s \<mapsto> Some (Float_list (map (\<lambda>i. tk_errornorm tk (Split (Interpolate se_s V_s) i)
                                        (Split (Interpolate sl_s V_s) i) ''L2'')
                             [0..<tk_num_sub tk (Interpolate se_s V_s)])))
     \<and> errors_v_linf s1 = (errors_v_linf s0)
          (K_theta \<mapsto> Some (Float (norm_linf (map2 (-) (vector tk (Interpolate se_theta V_theta))
                                          (vector tk (Interpolate sl_theta V_theta))))),
           K_s \<mapsto> Some (Float_list linf_s))
     \<and> those (map (\<lambda>i. np_max_abs_diff
                  (tk_compute_vertex_values tk (Split (Interpolate se_s V_s) i))
                  (tk_compute_vertex_values tk (Split (Interpolate sl_s V_s) i)))
               [0..<tk_num_sub tk (Interpolate se_s V_s)]) = Some linf_s"
proof -
  obtain s1 where c1: "calc_scalarfield_errors tk (Some sl_theta) (Some se_theta) (Some V_theta) ''theta'' s0
       = (Inr (Float (tk_errornorm tk se_theta sl_theta ''L2''),
               Float (norm_linf (map2 (-) (vector tk (Interpolate se_theta V_theta))
                                          (vector tk (Interpolate sl_theta V_theta))))), s1)"
    and f1: "s1 = s0\<lparr>xdmf_files := xdmf_files s1\<rparr>"
    using calc_scalarfield_errors_returns [of tk sl_theta se_theta V_theta "''theta''" s0]
    by (elim exE conjE)
  obtain s2 linf_s where c2: "calc_componentwise_errors False tk (Some sl_s) (Some se_s) (Some V_s) ''s'' s1
       = (Inr (Float_list (map (\<lambda>i. tk_errornorm tk (Split (Interpolate se_s V_s) i)
                                        (Split (Interpolate sl_s V_s) i) ''L2'')
                             [0..<tk_num_sub tk (Interpolate se_s V_s)]),
               Float_list linf_s), s2)"
    and l2: "those (map (\<lambda>i. np_max_abs_diff
                  (tk_compute_vertex_values tk (Split (Interpolate se_s V_s) i))
                  (tk_compute_vertex_values tk (Split (Interpolate sl_s V_s) i)))
               [0..<tk_num_sub tk (Interpolate se_s V_s)]) = Some linf_s"
    and f2: "s2 = s1\<lparr>xdmf_files := xdmf_files s2\<rparr>"
    using calc_componentwise_errors_returns [OF vv, of False sl_s se_s V_s "''s''" s1]
    by (elim exE conjE)
  note r1 = xdmf_frame [OF f1] and r2 = xdmf_frame [OF f2]
  have step1: "calc_scalarfield_errors tk (sol s0 K_theta) (esol s0 K_theta) (fspaces s0 K_theta) ''theta'' s0
       = (Inr (Float (tk_errornorm tk se_theta sl_theta ''L2''),
               Float (norm_linf (map2 (-) (vector tk (Interpolate se_theta V_theta))
                                          (vector tk (Interpolate sl_theta V_theta))))), s1)"
    unfolding assms(2-4) by (rule c1)
  have step2: "calc_vectorfield_errors tk (sol s1 K_s) (esol s1 K_s) (fspaces s1 K_s) ''s'' s1
       = (Inr (Float_list (map (\<lambda>i. tk_errornorm tk (Split (Interpolate se_s V_s) i)
                                        (Split (Interpolate sl_s V_s) i) ''L2'')
                             [0..<tk_num_sub tk (Interpolate se_s V_s)]),
               Float_list linf_s), s2)"
    unfolding r1 assms(5-7) calc_vectorfield_errors_def by (rule c2)
  have res: "calc_errors_heat tk s0 = (Returned,
      store_errors K_s (Float_list (map (\<lambda>i. tk_errornorm tk (Split (Interpolate se_s V_s) i)
                                        (Split (Interpolate sl_s V_s) i) ''L2'')
                             [0..<tk_num_sub tk (Interpolate se_s V_s)]),
               Float_list linf_s)
        (store_errors K_theta (Float (tk_errornorm tk se_theta sl_theta ''L2''),
               Float (norm_linf (map2 (-) (vector tk (Interpolate se_theta V_theta))
                                          (vector tk (Interpolate sl_theta V_theta))))) s2))"
    unfolding calc_errors_heat_def step1 by (simp add: step2)
  show ?thesis
    unfolding res using l2 by (simp add: store_errors_def r1 r2)
qed

lemma calc_errors_stress_returns:
  assumes vv: "\<forall>f. tk_compute_vertex_values tk f \<noteq> []"
    and "sol s0 K_p = Some sl_p" "esol s0 K_p = Some se_p" "fspaces s0 K_p = Some V_p"
    and "sol s0 K_u = Some sl_u" "esol s0 K_u = Some se_u" "fspaces s0 K_u = Some V_u"
    and "sol s0 K_sigma = Some sl_sigma" "esol s0 K_sigma = Some se_sigma"
        "fspaces s0 K_sigma = Some V_sigma"
  shows "\<exists>s1 linf_u linf_sigma. calc_errors_stress tk s0 = (Returned, s1)
     \<and> errors_f_l2 s1 = (errors_f_l2 s0)
          (K_p \<mapsto> Some (Float (tk_errornorm tk se_p sl_p ''L2'')),
           K_u \<mapsto> Some (Float_list (map (\<lambda>i. tk_errornorm tk (Split (Interpolate se_u V_u) i)
                                        (Split (Interpolate sl_u V_u) i) ''L2'')
                             [0..<tk_num_sub tk (Interpolate se_u V_u)])),
           K_sigma \<mapsto> Some (Float_list (map (\<lambda>i. tk_errornorm tk
                                        (Split (Interpolate se_sigma V_sigma) i)
                                        (Split (Interpolate sl_sigma V_sigma) i) ''L2'')
                             [0..<tk_num_sub tk (Interpolate se_sigma V_sigma)])))
     \<and> errors_v_linf s1 = (errors_v_linf s0)
          (K_p \<mapsto> Some (Float (norm_linf (map2 (-) (vector tk (Interpolate se_p V_p))
                                          (vector tk (Interpolate sl_p V_p))))),
           K_u \<mapsto> Some (Float_list linf_u),
           K_sigma \<mapsto> Some (Float_list linf_sigma))
     \<and> those (map (\<lambda>i. np_max_abs_diff
                  (tk_compute_vertex_values tk (Split (Interpolate se_u V_u) i))
                  (tk_compute_vertex_values tk (Split (Interpolate sl_u V_u) i)))
               [0..<tk_num_sub tk (Interpolate se_u V_u)]) = Some linf_u
     \<and> those (map (\<lambda>i. np_max_abs_diff
                  (tk_compute_vertex_values tk (Split (Interpolate se_sigma V_sigma) i))
                  (tk_compute_vertex_values tk (Split (Interpolate sl_sigma V_sigma) i)))
               [0..<tk_num_sub tk (Interpolate se_sigma V_sigma)]) = Some linf_sigma"
proof -
  obtain s1 where c1: "calc_scalarfield_errors tk (Some sl_p) (Some se_p) (Some V_p) ''p'' s0
       = (Inr (Float (tk_errornorm tk se_p sl_p ''L2''),
               Float (norm_linf (map2 (-) (vector tk (Interpolate se_p V_p))
                                          (vector tk (Interpolate sl_p V_p))))), s1)"
    and f1: "s1 = s0\<lparr>xdmf_files := xdmf_files s1\<rparr>"
    using calc_scalarfield_errors_returns [of tk sl_p se_p V_p "''p''" s0]
    by (elim exE conjE)
  obtain s2 linf_u where c2: "calc_componentwise_errors False tk (Some sl_u) (Some se_u) (Some V_u) ''u'' s1
       = (Inr (Float_list (map (\<lambda>i. tk_errornorm tk (Split (Interpolate se_u V_u) i)
                                        (Split (Interpolate sl_u V_u) i) ''L2'')
                             [0..<tk_num_sub tk (Interpolate se_u V_u)]),
               Float_list linf_u), s2)"
    and l2: "those (map (\<lambda>i. np_max_abs_diff
                  (tk_compute_vertex_values tk (Split (Interpolate se_u V_u) i))
                  (tk_compute_vertex_values tk (Split (Interpolate sl_u V_u) i)))
               [0..<tk_num_sub tk (Interpolate se_u V_u)]) = Some linf_u"
    and f2: "s2 = s1\<lparr>xdmf_files := xdmf_files s2\<rparr>"
    using calc_componentwise_errors_returns [OF vv, of False sl_u se_u V_u "''u''" s1]
    by (elim exE conjE)
  obtain s3 linf_sigma where c3: "calc_componentwise_errors True tk (Some sl_sigma) (Some se_sigma)
         (Some V_sigma) ''sigma'' s2
       = (Inr (Float_list (map (\<lambda>i. tk_errornorm tk (Split (Interpolate se_sigma V_sigma) i)
                                        (Split (Interpolate sl_sigma V_sigma) i) ''L2'')
                             [0..<tk_num_sub tk (Interpolate se_sigma V_sigma)]),
               Float_list linf_sigma), s3)"
    and l3: "those (map (\<lambda>i. np_max_abs_diff
                  (tk_compute_vertex_values tk (Split (Interpolate se_sigma V_sigma) i))
                  (tk_compute_vertex_values tk (Split (Interpolate sl_sigma V_sigma) i)))
               [0..<tk_num_sub tk (Interpolate se_sigma V_sigma)]) = Some linf_sigma"
    and f3: "s3 = s2\<lparr>xdmf_files := xdmf_files s3\<rparr>"
    using calc_componentwise_errors_returns [OF vv, of True sl_sigma se_sigma V_sigma "''sigma''" s2]
    by (elim exE conjE)
  note r1 = xdmf_frame [OF f1] and r2 = xdmf_frame [OF f2] and r3 = xdmf_frame [OF f3]
  have step1: "calc_scalarfield_errors tk (sol s0 K_p) (esol s0 K_p) (fspaces s0 K_p) ''p'' s0
       = (Inr (Float (tk_errornorm tk se_p sl_p ''L2''),
               Float (norm_linf (map2 (-) (vector tk (Interpolate se_p V_p))
                                          (vector tk (Interpolate sl_p V_p))))), s1)"
    unfolding assms(2-4) by (rule c1)
  have step2: "calc_vectorfield_errors tk (sol s1 K_u) (esol s1 K_u) (fspaces s1 K_u) ''u'' s1
       = (Inr (Float_list (map (\<lambda>i. tk_errornorm tk (Split (Interpolate se_u V_u) i)
                                        (Split (Interpolate sl_u V_u) i) ''L2'')
                             [0..<tk_num_sub tk (Interpolate se_u V_u)]),
               Float_list linf_u), s2)"
    unfolding r1 assms(5-7) calc_vectorfield_errors_def by (rule c2)
  have step3: "calc_tensorfield_errors tk (sol s2 K_sigma) (esol s2 K_sigma) (fspaces s2 K_sigma)
         ''sigma'' s2
       = (Inr (Float_list (map (\<lambda>i. tk_errornorm tk (Split (Interpolate se_sigma V_sigma) i)
                                        (Split (Interpolate sl_sigma V_sigma) i) ''L2'')
                             [0..<tk_num_sub tk (Interpolate se_sigma V_sigma)]),
               Float_list linf_sigma), s3)"
    unfolding r2 r1 assms(8-10) calc_tensorfield_errors_def by (rule c3)
  have res: "calc_errors_stress tk s0 = (Returned,
      store_errors K_sigma (Float_list (map (\<lambda>i. tk_errornorm tk (Split (Interpolate se_sigma V_sigma) i)
                                        (Split (Interpolate sl_sigma V_sigma) i) ''L2'')
                             [0..<tk_num_sub tk (Interpolate se_sigma V_sigma)]),
               Float_list linf_sigma)
       (store_errors K_u (Float_list (map (\<lambda>i. tk_errornorm tk (Split (Interpolate se_u V_u) i)
                                        (Split (Interpolate sl_u V_u) i) ''L2'')
                             [0..<tk_num_sub tk (Interpolate se_u V_u)]),
               Float_list linf_u)
        (store_errors K_p (Float (tk_errornorm tk se_p sl_p ''L2''),
               Float (norm_linf (map2 (-) (vector tk (Interpolate se_p V_p))
                                          (vector tk (Interpolate sl_p V_p))))) s3)))"
    unfolding calc_errors_stress_def step1 by (simp add: step2 step3)
  show ?thesis
    unfolding res using l2 l3 by (simp add: store_errors_def r1 r2 r3)
qed

text \<open>
  Claim C4, as amended. In heat mode for \<open>theta\<close> and \<open>s\<close>, in stress mode for \<open>p\<close>, \<open>u\<close>
  and \<open>sigma\<close>, \<open>calc_errors\<close> (either revision) stores under the name of the field, in
  \<open>errors[f][l2]\<close> and \<open>errors[v][linf]\<close>: for a scalar field the L2 error norm between
  the exact and the discrete solution, and the l_inf norm of the difference of the
  coefficient vectors of their interpolations; for a vector or tensor field, by
  component, the L2 error norm between the interpolation of the exact solution and
  the interpolation of the discrete solution, and the largest absolute difference of
  the vertex values of these. The helper functions return these values as the pair
  (L2 error, l_inf error). (The fields of the mode are there, and a function has
  vertex values.)
\<close>

theorem calc_errors_stores_norms:
  assumes "\<forall>f. tk_compute_vertex_values tk f \<noteq> []"
  shows
    "(mode s0 = ''heat''
        \<and> sol s0 K_theta = Some sl_0 \<and> esol s0 K_theta = Some se_0 \<and> fspaces s0 K_theta = Some V_0
        \<and> sol s0 K_s = Some sl_1 \<and> esol s0 K_s = Some se_1 \<and> fspaces s0 K_s = Some V_1
      \<longrightarrow> (\<exists>s1 linf_1. calc_errors tk s0 = (Returned, s1) \<and> calc_errors_src tk s0 = (Returned, s1)
            \<and> errors_f_l2 s1 = (errors_f_l2 s0)
                (K_theta \<mapsto> Some (Float (tk_errornorm tk se_0 sl_0 ''L2'')),
                 K_s \<mapsto> Some (Float_list (map (\<lambda>i. tk_errornorm tk (Split (Interpolate se_1 V_1) i)
                                              (Split (Interpolate sl_1 V_1) i) ''L2'')
                                   [0..<tk_num_sub tk (Interpolate se_1 V_1)])))
            \<and> errors_v_linf s1 = (errors_v_linf s0)
                (K_theta \<mapsto> Some (Float (norm_linf (map2 (-) (vector tk (Interpolate se_0 V_0))
                                                (vector tk (Interpolate sl_0 V_0))))),
                 K_s \<mapsto> Some (Float_list linf_1))
            \<and> those (map (\<lambda>i. np_max_abs_diff
                        (tk_compute_vertex_values tk (Split (Interpolate se_1 V_1) i))
                        (tk_compute_vertex_values tk (Split (Interpolate sl_1 V_1) i)))
                     [0..<tk_num_sub tk (Interpolate se_1 V_1)]) = Some linf_1))
   \<and> (mode s0 = ''stress''
        \<and> sol s0 K_p = Some sl_0 \<and> esol s0 K_p = Some se_0 \<and> fspaces s0 K_p = Some V_0
        \<and> sol s0 K_u = Some sl_1 \<and> esol s0 K_u = Some se_1 \<and> fspaces s0 K_u = Some V_1
        \<and> sol s0 K_sigma = Some sl_2 \<and> esol s0 K_sigma = Some se_2 \<and> fspaces s0 K_sigma = Some V_2
      \<longrightarrow> (\<exists>s1 linf_1 linf_2. calc_errors tk s0 = (Returned, s1) \<and> calc_errors_src tk s0 = (Returned, s1)
            \<and> errors_f_l2 s1 = (errors_f_l2 s0)
                (K_p \<mapsto> Some (Float (tk_errornorm tk se_0 sl_0 ''L2'')),
                 K_u \<mapsto> Some (Float_list (map (\<lambda>i. tk_errornorm tk (Split (Interpolate se_1 V_1) i)
                                              (Split (Interpolate sl_1 V_1) i) ''L2'')
                                   [0..<tk_num_sub tk (Interpolate se_1 V_1)])),
                 K_sigma \<mapsto> Some (Float_list (map (\<lambda>i. tk_errornorm tk (Split (Interpolate se_2 V_2) i)
                                              (Split (Interpolate sl_2 V_2) i) ''L2'')
                                   [0..<tk_num_sub tk (Interpolate se_2 V_2)])))
            \<and> errors_v_linf s1 = (errors_v_linf s0)
                (K_p \<mapsto> Some (Float (norm_linf (map2 (-) (vector tk (Interpolate se_0 V_0))
                                                (vector tk (Interpolate sl_0 V_0))))),
                 K_u \<mapsto> Some (Float_list linf_1),
                 K_sigma \<mapsto> Some (Float_list linf_2))
            \<and> those (map (\<lambda>i. np_max_abs_diff
                        (tk_compute_vertex_values tk (Split (Interpolate se_1 V_1) i))
                        (tk_compute_vertex_values tk (Split (Interpolate sl_1 V_1) i)))
                     [0..<tk_num_sub tk (Interpolate se_1 V_1)]) = Some linf_1
            \<and> those (map (\<lambda>i. np_max_abs_diff
                        (tk_compute_vertex_values tk (Split (Interpolate se_2 V_2) i))
                        (tk_compute_vertex_values tk (Split (Interpolate sl_2 V_2) i)))
                     [0..<tk_num_sub tk (Interpolate se_2 V_2)]) = Some linf_2))
   \<and> fst (calc_scalarfield_errors tk (Some sl_0) (Some se_0) (Some V_0) name s0)
       = Inr (Float (tk_errornorm tk se_0 sl_0 ''L2''),
              Float (norm_linf (map2 (-) (vector tk (Interpolate se_0 V_0))
                                         (vector tk (Interpolate sl_0 V_0)))))
   \<and> (\<exists>linf_1. fst (calc_vectorfield_errors tk (Some sl_1) (Some se_1) (Some V_1) name s0)
         = Inr (Float_list (map (\<lambda>i. tk_errornorm tk (Split (Interpolate se_1 V_1) i)
                                              (Split (Interpolate sl_1 V_1) i) ''L2'')
                                   [0..<tk_num_sub tk (Interpolate se_1 V_1)]), Float_list linf_1)
       \<and> fst (calc_tensorfield_errors tk (Some sl_1) (Some se_1) (Some V_1) name s0)
         = Inr (Float_list (map (\<lambda>i. tk_errornorm tk (Split (Interpolate se_1 V_1) i)
                                              (Split (Interpolate sl_1 V_1) i) ''L2'')
                                   [0..<tk_num_sub tk (Interpolate se_1 V_1)]), Float_list linf_1)
       \<and> those (map (\<lambda>i. np_max_abs_diff
                        (tk_compute_vertex_values tk (Split (Interpolate se_1 V_1) i))
                        (tk_compute_vertex_values tk (Split (Interpolate sl_1 V_1) i)))
                     [0..<tk_num_sub tk (Interpolate se_1 V_1)]) = Some linf_1)"
proof (intro conjI impI; (elim conjE)?)
  assume h: "mode s0 = ''heat''"
    "sol s0 K_theta = Some sl_0" "esol s0 K_theta = Some se_0" "fspaces s0 K_theta = Some V_0"
    "sol s0 K_s = Some sl_1" "esol s0 K_s = Some se_1" "fspaces s0 K_s = Some V_1"
  from calc_errors_heat_returns [OF assms h(2-7)] h(1)
  show "\<exists>s1 linf_1. calc_errors tk s0 = (Returned, s1) \<and> calc_errors_src tk s0 = (Returned, s1)
            \<and> errors_f_l2 s1 = (errors_f_l2 s0)
                (K_theta \<mapsto> Some (Float (tk_errornorm tk se_0 sl_0 ''L2'')),
                 K_s \<mapsto> Some (Float_list (map (\<lambda>i. tk_errornorm tk (Split (Interpolate se_1 V_1) i)
                                              (Split (Interpolate sl_1 V_1) i) ''L2'')
                                   [0..<tk_num_sub tk (Interpolate se_1 V_1)])))
            \<and> errors_v_linf s1 = (errors_v_linf s0)
                (K_theta \<mapsto> Some (Float (norm_linf (map2 (-) (vector tk (Interpolate se_0 V_0))
                                                (vector tk (Interpolate sl_0 V_0))))),
                 K_s \<mapsto> Some (Float_list linf_1))
            \<and> those (map (\<lambda>i. np_max_abs_diff
                        (tk_compute_vertex_values tk (Split (Interpolate se_1 V_1) i))
                        (tk_compute_vertex_values tk (Split (Interpolate sl_1 V_1) i)))
                     [0..<tk_num_sub tk (Interpolate se_1 V_1)]) = Some linf_1"
    by (elim exE conjE) (simp add: calc_errors_def calc_errors_src_def calc_errors_modes_def)
next
  assume h: "mode s0 = ''stress''"
    "sol s0 K_p = Some sl_0" "esol s0 K_p = Some se_0" "fspaces s0 K_p = Some V_0"
    "sol s0 K_u = Some sl_1" "esol s0 K_u = Some se_1" "fspaces s0 K_u = Some V_1"
    "sol s0 K_sigma = Some sl_2" "esol s0 K_sigma = Some se_2" "fspaces s0 K_sigma = Some V_2"
  from calc_errors_stress_returns [OF assms h(2-10)] h(1)
  show "\<exists>s1 linf_1 linf_2. calc_errors tk s0 = (Returned, s1) \<and> calc_errors_src tk s0 = (Returned, s1)
            \<and> errors_f_l2 s1 = (errors_f_l2 s0)
                (K_p \<mapsto> Some (Float (tk_errornorm tk se_0 sl_0 ''L2'')),
                 K_u \<mapsto> Some (Float_list (map (\<lambda>i. tk_errornorm tk (Split (Interpolate se_1 V_1) i)
                                              (Split (Interpolate sl_1 V_1) i) ''L2'')
                                   [0..<tk_num_sub tk (Interpolate se_1 V_1)])),
                 K_sigma \<mapsto> Some (Float_list (map (\<lambda>i. tk_errornorm tk (Split (Interpolate se_2 V_2) i)
                                              (Split (Interpolate sl_2 V_2) i) ''L2'')
                                   [0..<tk_num_sub tk (Interpolate se_2 V_2)])))
            \<and> errors_v_linf s1 = (errors_v_linf s0)
                (K_p \<mapsto> Some (Float (norm_linf (map2 (-) (vector tk (Interpolate se_0 V_0))
                                                (vector tk (Interpolate sl_0 V_0))))),
                 K_u \<mapsto> Some (Float_list linf_1),
                 K_sigma \<mapsto> Some (Float_list linf_2))
            \<and> those (map (\<lambda>i. np_max_abs_diff
                        (tk_compute_vertex_values tk (Split (Interpolate se_1 V_1) i))
                        (tk_compute_vertex_values tk (Split (Interpolate sl_1 V_1) i)))
                     [0..<tk_num_sub tk (Interpolate se_1 V_1)]) = Some linf_1
            \<and> those (map (\<lambda>i. np_max_abs_diff
                        (tk_compute_vertex_values tk (Split (Interpolate se_2 V_2) i))
                        (tk_compute_vertex_values tk (Split (Interpolate sl_2 V_2) i)))
                     [0..<tk_num_sub tk (Interpolate se_2 V_2)]) = Some linf_2"
    by (elim exE conjE) (simp add: calc_errors_def calc_errors_src_def calc_errors_modes_def)
next
  show "fst (calc_scalarfield_errors tk (Some sl_0) (Some se_0) (Some V_0) name s0)
       = Inr (Float (tk_errornorm tk se_0 sl_0 ''L2''),
              Float (norm_linf (map2 (-) (vector tk (Interpolate se_0 V_0))
                                         (vector tk (Interpolate sl_0 V_0)))))"
    using calc_scalarfield_errors_returns [of tk sl_0 se_0 V_0 name s0]
    by (elim exE conjE) simp
next
  from calc_componentwise_errors_returns [OF assms, of False sl_1 se_1 V_1 name s0]
  obtain linf where a: "fst (calc_componentwise_errors False tk (Some sl_1) (Some se_1) (Some V_1) name s0)
         = Inr (Float_list (map (\<lambda>i. tk_errornorm tk (Split (Interpolate se_1 V_1) i)
                                              (Split (Interpolate sl_1 V_1) i) ''L2'')
                                   [0..<tk_num_sub tk (Interpolate se_1 V_1)]), Float_list linf)"
    and l: "those (map (\<lambda>i. np_max_abs_diff
                        (tk_compute_vertex_values tk (Split (Interpolate se_1 V_1) i))
                        (tk_compute_vertex_values tk (Split (Interpolate sl_1 V_1) i)))
                     [0..<tk_num_sub tk (Interpolate se_1 V_1)]) = Some linf"
    by (elim exE conjE) simp
  from calc_componentwise_errors_returns [OF assms, of True sl_1 se_1 V_1 name s0] l
  have b: "fst (calc_componentwise_errors True tk (Some sl_1) (Some se_1) (Some V_1) name s0)
         = Inr (Float_list (map (\<lambda>i. tk_errornorm tk (Split (Interpolate se_1 V_1) i)
                                              (Split (Interpolate sl_1 V_1) i) ''L2'')
                                   [0..<tk_num_sub tk (Interpolate se_1 V_1)]), Float_list linf)"
    by (elim exE conjE) simp
  from a b l show "\<exists>linf_1. fst (calc_vectorfield_errors tk (Some sl_1) (Some se_1) (Some V_1) name s0)
         = Inr (Float_list (map (\<lambda>i. tk_errornorm tk (Split (Interpolate se_1 V_1) i)
                                              (Split (Interpolate sl_1 V_1) i) ''L2'')
                                   [0..<tk_num_sub tk (Interpolate se_1 V_1)]), Float_list linf_1)
       \<and> fst (calc_tensorfield_errors tk (Some sl_1) (Some se_1) (Some V_1) name s0)
         = Inr (Float_list (map (\<lambda>i. tk_errornorm tk (Split (Interpolate se_1 V_1) i)
                                              (Split (Interpolate sl_1 V_1) i) ''L2'')
                                   [0..<tk_num_sub tk (Interpolate se_1 V_1)]), Float_list linf_1)
       \<and> those (map (\<lambda>i. np_max_abs_diff
                        (tk_compute_vertex_values tk (Split (Interpolate se_1 V_1) i))
                        (tk_compute_vertex_values tk (Split (Interpolate sl_1 V_1) i)))
                     [0..<tk_num_sub tk (Interpolate se_1 V_1)]) = Some linf_1"
    unfolding calc_vectorfield_errors_def calc_tensorfield_errors_def
    by (intro exI [of _ linf] conjI)
qed

lemma example_errors_solver_ready:
  "mode example_errors_solver = ''heat''
   \<and> sol example_errors_solver K_theta = Some example_theta_field
   \<and> esol example_errors_solver K_theta = Some (CompiledExpression ''esols/1.cpp'' ''Temperature'' 2)
   \<and> sol example_errors_solver K_s = Some example_s_field
   \<and> esol example_errors_solver K_s = Some (CompiledExpression ''esols/1.cpp'' ''Heatflux'' 2)
   \<and> (\<exists>V_0 V_1. fspaces example_errors_solver K_theta = Some V_0
         \<and> fspaces example_errors_solver K_s = Some V_1)"
  by (simp add: example_errors_solver_def setup_function_spaces_def for_vars_setup_var
      setup_mixed_def Let_def example_solver_fields)

lemma upt_2: "[0..<2] = [0, 1]"
  by (simp add: upt_rec)

text \<open>On the example solver with the example toolkit (every L2 distance 1/4).\<close>

theorem calc_errors_stores_norms_witness:
  "errors_f_l2 (snd (calc_errors example_toolkit example_errors_solver)) K_theta
     = Some (Some (Float (1/4)))
   \<and> errors_v_linf (snd (calc_errors example_toolkit example_errors_solver)) K_theta
     = Some (Some (Float 0))
   \<and> errors_f_l2 (snd (calc_errors example_toolkit example_errors_solver)) K_s
     = Some (Some (Float_list [1/4, 1/4]))
   \<and> errors_v_linf (snd (calc_errors example_toolkit example_errors_solver)) K_s
     = Some (Some (Float_list [0, 0]))"
proof -
  obtain V_0 V_1 where r: "mode example_errors_solver = ''heat''
      \<and> sol example_errors_solver K_theta = Some example_theta_field
      \<and> esol example_errors_solver K_theta = Some (CompiledExpression ''esols/1.cpp'' ''Temperature'' 2)
      \<and> fspaces example_errors_solver K_theta = Some V_0
      \<and> sol example_errors_solver K_s = Some example_s_field
      \<and> esol example_errors_solver K_s = Some (CompiledExpression ''esols/1.cpp'' ''Heatflux'' 2)
      \<and> fspaces example_errors_solver K_s = Some V_1"
    using example_errors_solver_ready by blast
  have vv: "\<forall>f. tk_compute_vertex_values example_toolkit f \<noteq> []"
    by (simp add: example_toolkit_def split: field.splits)
  from calc_errors_stores_norms [OF vv, of example_errors_solver example_theta_field
      "CompiledExpression ''esols/1.cpp'' ''Temperature'' 2" V_0 example_s_field
      "CompiledExpression ''esols/1.cpp'' ''Heatflux'' 2" V_1] r
  obtain s1 linf_1 where s1: "calc_errors example_toolkit example_errors_solver = (Returned, s1)"
    and l2: "errors_f_l2 s1 = (errors_f_l2 example_errors_solver)
                (K_theta \<mapsto> Some (Float (tk_errornorm example_toolkit
                     (CompiledExpression ''esols/1.cpp'' ''Temperature'' 2) example_theta_field ''L2'')),
                 K_s \<mapsto> Some (Float_list (map (\<lambda>i. tk_errornorm example_toolkit
                       (Split (Interpolate (CompiledExpression ''esols/1.cpp'' ''Heatflux'' 2) V_1) i)
                       (Split (Interpolate example_s_field V_1) i) ''L2'')
                     [0..<tk_num_sub example_toolkit
                        (Interpolate (CompiledExpression ''esols/1.cpp'' ''Heatflux'' 2) V_1)])))"
    and linf: "errors_v_linf s1 = (errors_v_linf example_errors_solver)
                (K_theta \<mapsto> Some (Float (norm_linf (map2 (-)
                     (vector example_toolkit (Interpolate (CompiledExpression ''esols/1.cpp'' ''Temperature'' 2) V_0))
                     (vector example_toolkit (Interpolate example_theta_field V_0))))),
                 K_s \<mapsto> Some (Float_list linf_1))"
    and th: "those (map (\<lambda>i. np_max_abs_diff
                (tk_compute_vertex_values example_toolkit
                   (Split (Interpolate (CompiledExpression ''esols/1.cpp'' ''Heatflux'' 2) V_1) i))
                (tk_compute_vertex_values example_toolkit (Split (Interpolate example_s_field V_1) i)))
              [0..<tk_num_sub example_toolkit
                 (Interpolate (CompiledExpression ''esols/1.cpp'' ''Heatflux'' 2) V_1)]) = Some linf_1"
    by blast
  have v: "tk_errornorm example_toolkit f g norm_type = 1/4"
    "tk_num_sub example_toolkit f = 2"
    "tk_vector example_toolkit f = [1, 2, 6]" for f g norm_type
    by (simp_all add: example_toolkit_def)
  from th have "linf_1 = [0, 0]"
    by (simp add: example_toolkit_def upt_2 np_max_abs_diff_def)
  then show ?thesis
    unfolding s1 snd_conv l2 linf by (simp add: v upt_2 norm_linf_def)
qed

text \<open>
  With the toolkit in which the discrete heat flux is the interpolation of the exact
  one, \<open>calc_errors\<close> stores the L2 errors \<open>[0, 0]\<close> for \<open>s\<close>, while the L2 distance
  between the exact solution and the discrete solution is 1, as a whole and by
  component: what is stored for a vector field is not the L2 error between the exact
  and the discrete solution.
\<close>

theorem calc_errors_vector_l2_is_between_interpolations:
  "sol example_errors_solver K_s = Some example_s_field
   \<and> esol example_errors_solver K_s = Some (CompiledExpression ''esols/1.cpp'' ''Heatflux'' 2)
   \<and> errors_f_l2 (snd (calc_errors example_nodal_toolkit example_errors_solver)) K_s
       = Some (Some (Float_list [0, 0]))
   \<and> tk_errornorm example_nodal_toolkit
        (CompiledExpression ''esols/1.cpp'' ''Heatflux'' 2) example_s_field ''L2'' = 1
   \<and> map (\<lambda>i. tk_errornorm example_nodal_toolkit
                (Split (CompiledExpression ''esols/1.cpp'' ''Heatflux'' 2) i)
                (Split example_s_field i) ''L2'') [0..<2] = [1, 1]"
proof -
  obtain V_0 V_1 where r:
      "sol example_errors_solver K_theta = Some example_theta_field"
      "esol example_errors_solver K_theta = Some (CompiledExpression ''esols/1.cpp'' ''Temperature'' 2)"
      "fspaces example_errors_solver K_theta = Some V_0"
      "sol example_errors_solver K_s = Some example_s_field"
      "esol example_errors_solver K_s = Some (CompiledExpression ''esols/1.cpp'' ''Heatflux'' 2)"
      "fspaces example_errors_solver K_s = Some V_1"
    and m: "mode example_errors_solver = ''heat''"
    using example_errors_solver_ready by blast
  have vv: "\<forall>f. tk_compute_vertex_values example_nodal_toolkit f \<noteq> []"
    by (simp add: example_nodal_toolkit_def)
  from calc_errors_heat_returns [OF vv r]
  obtain s1 where s1: "calc_errors_heat example_nodal_toolkit example_errors_solver = (Returned, s1)"
    and ms: "mode s1 = mode example_errors_solver"
    and l2: "errors_f_l2 s1 K_s = Some (Some (Float_list (map (\<lambda>i. tk_errornorm example_nodal_toolkit
                       (Split (Interpolate (CompiledExpression ''esols/1.cpp'' ''Heatflux'' 2) V_1) i)
                       (Split (Interpolate example_s_field V_1) i) ''L2'')
                     [0..<tk_num_sub example_nodal_toolkit
                        (Interpolate (CompiledExpression ''esols/1.cpp'' ''Heatflux'' 2) V_1)])))"
    by (elim exE conjE) simp
  have "calc_errors example_nodal_toolkit example_errors_solver = (Returned, s1)"
    by (simp add: calc_errors_def calc_errors_modes_def m s1 ms)
  then have "errors_f_l2 (snd (calc_errors example_nodal_toolkit example_errors_solver)) K_s
       = Some (Some (Float_list [0, 0]))"
    by (simp add: l2 example_nodal_toolkit_def upt_2)
  moreover have "tk_errornorm example_nodal_toolkit
        (CompiledExpression ''esols/1.cpp'' ''Heatflux'' 2) example_s_field ''L2'' = 1"
    "map (\<lambda>i. tk_errornorm example_nodal_toolkit
                (Split (CompiledExpression ''esols/1.cpp'' ''Heatflux'' 2) i)
                (Split example_s_field i) ''L2'') [0..<2] = [1, 1]"
    by (simp_all add: example_nodal_toolkit_def upt_2 example_s_field_def)
  ultimately show ?thesis
    using r(4,5) by blast
qed

end
